theory Spec2Isabelle
  imports Main "HOL-Library.AList" "HOL-Library.Char_ord" "HOL-Library.List_Lexorder"
begin

section \<open>The protocol code generator (agent/src/cli/scip-codegen/Codegen.ts)\<close>

text \<open>
  A shallow embedding of the generation engine \<^verbatim>\<open>Codegen\<close>. The engine's mutable fields
  (\<^verbatim>\<open>queue\<close>, \<^verbatim>\<open>generatedSymbols\<close>, \<^verbatim>\<open>stringLiteralConstants\<close>, \<^verbatim>\<open>discriminatedUnions\<close>,
  \<^verbatim>\<open>siblingDiscriminatedUnionProperties\<close>, the reporter's diagnostics) are a record that
  every method takes and returns; an exception is a value of type \<open>error\<close>, returned
  together with the state reached when it was raised. The symbol table, the formatter,
  the emitter, \<^verbatim>\<open>utils\<close>, \<^verbatim>\<open>stringLiteralType\<close> and the helpers inherited from
  \<^verbatim>\<open>BaseCodegen\<close> are not part of the sources at hand: they are parameters (fields of the
  environment records below).
\<close>

subsection \<open>Strings\<close>

text \<open>\<^verbatim>\<open>String.prototype.startsWith\<close>, \<^verbatim>\<open>endsWith\<close> and \<^verbatim>\<open>includes\<close>.\<close>

definition startsWith :: "string \<Rightarrow> string \<Rightarrow> bool" where
  "startsWith str p = (take (length p) str = p)"

definition endsWith :: "string \<Rightarrow> string \<Rightarrow> bool" where
  "endsWith str p = (length p \<le> length str \<and> drop (length str - length p) str = p)"

fun str_includes :: "string \<Rightarrow> string \<Rightarrow> bool" where
  "str_includes [] p = (p = [])"
| "str_includes (c # cs) p = (startsWith (c # cs) p \<or> str_includes cs p)"

text \<open>JavaScript truthiness of a \<^verbatim>\<open>string | undefined\<close>: the empty string is falsy.\<close>

definition truthy :: "string option \<Rightarrow> bool" where
  "truthy r = (case r of None \<Rightarrow> False | Some v \<Rightarrow> v \<noteq> [])"

subsection \<open>The symbol graph\<close>

text \<open>
  Modelled from the spec: the declarations of \<^verbatim>\<open>scip.Type\<close>,
  \<^verbatim>\<open>scip.Signature\<close> and \<^verbatim>\<open>scip.SymbolInformation\<close> (\<^verbatim>\<open>./scip\<close>) are missing. A type is a
  tagged union over a type reference (symbol and type arguments), a structural type
  (member symbols), an intersection, a union, a constant (literal) and a lambda type;
  \<open>OtherType\<close> stands for every variant the generator tests for nowhere. A symbol
  information has a symbol, a display name, a kind and at most one signature.
\<close>

datatype tpe =
    TypeRef string "tpe list"
  | StructuralType "string list"
  | IntersectionType "tpe list"
  | UnionType "tpe list"
  | ConstantType string
  | LambdaType
  | OtherType

datatype signature =
    ClassSignature "string list"
  | TypeSignature tpe
  | ValueSignature tpe
  | OtherSignature

datatype kind = Class | UnspecifiedKind

record symbol_information =
  symbol :: string
  display_name :: string
  kind :: kind
  signature :: "signature option"

datatype role = Parameter | Result

fun role_text :: "role \<Rightarrow> string" where
  "role_text Parameter = ''parameter''"
| "role_text Result = ''result''"

fun has_constant_type :: "tpe \<Rightarrow> bool" where
  "has_constant_type (ConstantType c) = True"
| "has_constant_type t = False"

fun has_lambda_type :: "tpe \<Rightarrow> bool" where
  "has_lambda_type LambdaType = True"
| "has_lambda_type t = False"

fun has_structural_type :: "tpe \<Rightarrow> bool" where
  "has_structural_type (StructuralType ms) = True"
| "has_structural_type t = False"

fun has_intersection_type :: "tpe \<Rightarrow> bool" where
  "has_intersection_type (IntersectionType ts) = True"
| "has_intersection_type t = False"

subsection \<open>Exceptions and diagnostics\<close>

text \<open>
  One constructor for each \<^verbatim>\<open>throw\<close> of Codegen.ts, with the value its message prints;
  \<open>UndefinedAccess\<close> is the \<^verbatim>\<open>TypeError\<close> JavaScript raises when a property of
  \<^verbatim>\<open>undefined\<close> is read, \<open>StackOverflow\<close> the \<^verbatim>\<open>RangeError\<close> of a recursion deeper than the
  call stack, \<open>LookupError\<close> the failure of \<^verbatim>\<open>symtab.info\<close> on an absent symbol, and
  \<open>HelperError\<close>, with the helper's name, whatever one of the helpers \<^verbatim>\<open>properties\<close>,
  \<^verbatim>\<open>infoProperties\<close> and \<^verbatim>\<open>structuralType\<close>, missing from the sources, throws.
\<close>

datatype error =
    RecordTypeArguments tpe
  | UnsupportedUnionType symbol_information
  | UnsupportedType tpe
  | UnknownInfo symbol_information
  | NotAValueSignature symbol_information
  | UndefinedAccess
  | StackOverflow
  | LookupError string
  | HelperError string

text \<open>The error of the last line of \<^verbatim>\<open>queueClassLikeInfo\<close>, \<^verbatim>\<open>TypeError("unknown info: ...")\<close>.\<close>

fun isUnknownInfo :: "error \<Rightarrow> bool" where
  "isUnknownInfo (UnknownInfo sinfo) = True"
| "isUnknownInfo e = False"

datatype severity = Warning | Error

text \<open>A diagnostic message is its template with the values interpolated into it.\<close>

datatype message =
    DuplicateDiscriminatorValue string
  | FailedToHandleClass string error
  | ClassesShouldNotBeExposed
  | IgnoringLambdaProperty string
  | ErrorHandlingMember string error
  | ResolvingUnsupportedUnion nat symbol_information
  | IncompatibleSignatures
  | ConflictHere
  | NoPropertiesFound
  | MissingResultType

datatype diagnostic =
  Diagnostic (severity: severity) (diag_symbol: string) (message: message)
    (additionalInformation: "diagnostic list")

subsection \<open>Discriminated unions (BaseCodegen.ts, declarations only)\<close>

record discriminated_union_member =
  member_value :: string
  member_type :: tpe

record discriminated_union =
  du_symbol :: string
  discriminatorDisplayName :: string
  members :: "discriminated_union_member list"

subsection \<open>Collaborators that are parameters\<close>

text \<open>
  \<^verbatim>\<open>SymbolTable\<close>: \<^verbatim>\<open>info\<close> fails with a lookup error on an absent symbol (\<open>None\<close>);
  \<^verbatim>\<open>structuralType\<close> may fail too.
\<close>

record symbol_table =
  info :: "string \<Rightarrow> symbol_information option"
  canonicalSymbol :: "string \<Rightarrow> string"
  structuralType :: "string \<Rightarrow> symbol_information list option"

text \<open>
  \<^verbatim>\<open>Formatter\<close>: the two tables and the pure naming functions the engine calls. An entry of
  \<^verbatim>\<open>unionTypeExceptionIndex\<close> is a pair of \<^verbatim>\<open>prefix\<close> and \<^verbatim>\<open>index\<close>.
  \<open>synthesizedTypeName\<close> and \<open>typeSyntax\<close> are the two halves of \<^verbatim>\<open>jsonrpcTypeName\<close>, see
  below.
\<close>

record formatter =
  ignoredProperties :: "string list"
  unionTypeExceptionIndex :: "(string \<times> nat) list"
  isRecord :: "string \<Rightarrow> bool"
  isNullable :: "tpe \<Rightarrow> bool"
  isIgnoredType :: "tpe \<Rightarrow> bool"
  isIgnoredInfo :: "symbol_information \<Rightarrow> bool"
  typeName :: "symbol_information \<Rightarrow> string"
  synthesizedTypeName :: "string \<Rightarrow> role \<Rightarrow> string"
  typeSyntax :: "symbol_information \<Rightarrow> tpe \<Rightarrow> role \<Rightarrow> string"
  formatEnumType :: "string \<Rightarrow> string"
  nullableSyntax :: "tpe \<Rightarrow> string"
  formatFieldName :: "string \<Rightarrow> string"
  discriminatedUnionTypeName ::
    "discriminated_union \<Rightarrow> discriminated_union_member \<Rightarrow> string"

text \<open>
  Modelled from the spec: \<^verbatim>\<open>Formatter.jsonrpcTypeName\<close>, whose source is missing. For a
  structural or intersection type the spec makes the name of the synthesized type "a
  deterministic function of (owning method symbol, role)"; for every other type the name
  is left open (\<open>typeSyntax\<close>).
\<close>

definition jsonrpcTypeName ::
  "formatter \<Rightarrow> symbol_information \<Rightarrow> tpe \<Rightarrow> role \<Rightarrow> string" where
  "jsonrpcTypeName f jsonrpcMethod t r =
     (if has_structural_type t \<or> has_intersection_type t
      then synthesizedTypeName f (symbol jsonrpcMethod) r
      else typeSyntax f jsonrpcMethod t r)"

record emitter =
  formatter :: formatter
  getFileType :: string
  getFileNameForType :: "string \<Rightarrow> string"

text \<open>
  The environment of one \<^verbatim>\<open>Codegen\<close> object: its symbol table and emitter, the functions
  imported from \<^verbatim>\<open>./utils\<close> and \<^verbatim>\<open>./stringLiteralType\<close>, the helpers inherited from
  \<^verbatim>\<open>BaseCodegen\<close> (\<^verbatim>\<open>properties\<close> and \<^verbatim>\<open>infoProperties\<close> read the symbol table and may
  throw), the flag \<^verbatim>\<open>isNestedDiscriminatedUnion\<close>, the depth of the call stack,
  \<^verbatim>\<open>options.output\<close>, \<^verbatim>\<open>path.join\<close>, \<^verbatim>\<open>BaseCodegen.protocolSymbols\<close>,
  \<^verbatim>\<open>Formatter.jsonrpcMethodParameter\<close> and whether the emitter has the optional method
  \<^verbatim>\<open>closeSealedClass\<close>.
\<close>

record codegen_env =
  symtab :: symbol_table
  emitter :: emitter
  typescriptKeyword :: "string \<Rightarrow> string"
  isTypescriptKeyword :: "string \<Rightarrow> bool"
  typescriptKeywordSyntax :: "string \<Rightarrow> string option"
  capitalize :: "string \<Rightarrow> string"
  stringLiteralType :: "tpe \<Rightarrow> string option"
  properties :: "tpe \<Rightarrow> string list option"
  infoProperties :: "symbol_information \<Rightarrow> string list option"
  isStringTypeInfo :: "symbol_information \<Rightarrow> bool"
  stringConstantsFromInfo :: "symbol_information \<Rightarrow> string list"
  compatibleSignatures :: "symbol_information \<Rightarrow> symbol_information \<Rightarrow> bool"
  isNestedDiscriminatedUnion :: bool
  stackLimit :: nat
  outputPath :: string
  path_join :: "string \<Rightarrow> string \<Rightarrow> string"
  clientRequests :: string
  clientNotifications :: string
  serverRequests :: string
  serverNotifications :: string
  jsonrpcMethodParameter :: "symbol_information \<Rightarrow> tpe"
  hasCloseSealedClass :: bool

subsection \<open>The engine's state\<close>

text \<open>
  \<^verbatim>\<open>queue\<close> is an array used as a stack (\<^verbatim>\<open>push\<close> appends, \<^verbatim>\<open>pop\<close> takes the last element).
  The two maps and \<^verbatim>\<open>stringLiteralConstants\<close> keep JavaScript's insertion order, so they
  are association lists and a duplicate-free list. \<open>diagnostics\<close> is what the
  reporter has collected.
\<close>

record codegen =
  queue :: "symbol_information list"
  generatedSymbols :: "string set"
  stringLiteralConstants :: "string list"
  discriminatedUnions :: "(string \<times> discriminated_union) list"
  siblingDiscriminatedUnionProperties :: "(string \<times> string list) list"
  diagnostics :: "diagnostic list"

definition reporter_report :: "diagnostic \<Rightarrow> codegen \<Rightarrow> codegen" where
  "reporter_report d s = s\<lparr>diagnostics := diagnostics s @ [d]\<rparr>"

definition reporter_warn :: "string \<Rightarrow> message \<Rightarrow> codegen \<Rightarrow> codegen" where
  "reporter_warn symb msg s = reporter_report (Diagnostic Warning symb msg []) s"

definition reporter_error :: "string \<Rightarrow> message \<Rightarrow> codegen \<Rightarrow> codegen" where
  "reporter_error symb msg s = reporter_report (Diagnostic Error symb msg []) s"

definition queue_push :: "symbol_information \<Rightarrow> codegen \<Rightarrow> codegen" where
  "queue_push sinfo s = s\<lparr>queue := queue s @ [sinfo]\<rparr>"

subsection \<open>unionTypes\<close>

text \<open>
  The local function \<^verbatim>\<open>loop\<close> calls itself through the symbol table, once for each type
  alias of a union that is a member of a union; \<open>depth\<close> is the room left on the call stack.
  \<open>unionTypes_members\<close> is the \<^verbatim>\<open>for\<close> loop over \<^verbatim>\<open>t.union_type.types\<close>.
\<close>

fun unionTypes_loop :: "codegen_env \<Rightarrow> nat \<Rightarrow> tpe \<Rightarrow> tpe list \<Rightarrow> error + tpe list"
  and unionTypes_members ::
    "codegen_env \<Rightarrow> nat \<Rightarrow> tpe list \<Rightarrow> tpe list \<Rightarrow> error + tpe list" where
  "unionTypes_loop env 0 t result = Inl StackOverflow"
| "unionTypes_loop env (Suc depth) t result =
     (case t of
        UnionType ts \<Rightarrow> unionTypes_members env depth ts result
      | _ \<Rightarrow> Inr result)"
| "unionTypes_members env depth [] result = Inr result"
| "unionTypes_members env depth (unionType # rest) result =
     (case unionType of
        TypeRef symb args \<Rightarrow>
          (case info (symtab env) symb of
             None \<Rightarrow> Inl (LookupError symb)
           | Some sinfo \<Rightarrow>
               (case signature sinfo of
                  None \<Rightarrow> Inl UndefinedAccess
                | Some (TypeSignature (UnionType ts')) \<Rightarrow>
                    (case unionTypes_loop env depth (UnionType ts') result of
                       Inl e \<Rightarrow> Inl e
                     | Inr result' \<Rightarrow> unionTypes_members env depth rest result')
                | Some _ \<Rightarrow> unionTypes_members env depth rest (result @ [unionType])))
      | _ \<Rightarrow> unionTypes_members env depth rest (result @ [unionType]))"

definition unionTypes :: "codegen_env \<Rightarrow> tpe \<Rightarrow> error + tpe list" where
  "unionTypes env t = unionTypes_loop env (stackLimit env) t []"

subsection \<open>discriminatedUnion\<close>

text \<open>
  \<^verbatim>\<open>candidates\<close> and \<^verbatim>\<open>memberss\<close> are \<^verbatim>\<open>Map\<close>s: \<^verbatim>\<open>set\<close> on a new key appends, on an old key
  replaces in place, which is \<^const>\<open>AList.update\<close>. The test \<^verbatim>\<open>!stringLiteral\<close> skips
  \<^verbatim>\<open>undefined\<close> and the empty string. Reading \<^verbatim>\<open>.value_signature.tpe\<close> of a property with
  another signature, or with none, reads a property of \<^verbatim>\<open>undefined\<close>.
\<close>

type_synonym du_tally =
  "(string \<times> nat) list \<times> (string \<times> discriminated_union_member list) list"

fun du_properties_loop ::
  "codegen_env \<Rightarrow> tpe \<Rightarrow> string list \<Rightarrow> du_tally \<Rightarrow> error + du_tally" where
  "du_properties_loop env unionType [] tally = Inr tally"
| "du_properties_loop env unionType (propertySymbol # rest) tally =
     (case info (symtab env) propertySymbol of
        None \<Rightarrow> Inl (LookupError propertySymbol)
      | Some property \<Rightarrow>
          (case signature property of
             Some (ValueSignature t) \<Rightarrow>
               (case stringLiteralType env t of
                  None \<Rightarrow> du_properties_loop env unionType rest tally
                | Some stringLiteral \<Rightarrow>
                    if stringLiteral = [] then du_properties_loop env unionType rest tally
                    else
                      (let candidates = fst tally;
                           memberss = snd tally;
                           count = (case map_of candidates (display_name property) of
                                      None \<Rightarrow> 0 | Some c \<Rightarrow> c);
                           ms = (case map_of memberss (display_name property) of
                                   None \<Rightarrow> [] | Some l \<Rightarrow> l)
                       in du_properties_loop env unionType rest
                            (AList.update (display_name property) (count + 1) candidates,
                             AList.update (display_name property)
                               (ms @ [\<lparr>member_value = stringLiteral, member_type = unionType\<rparr>])
                               memberss)))
           | _ \<Rightarrow> Inl UndefinedAccess))"

fun du_unionTypes_loop :: "codegen_env \<Rightarrow> tpe list \<Rightarrow> du_tally \<Rightarrow> error + du_tally" where
  "du_unionTypes_loop env [] tally = Inr tally"
| "du_unionTypes_loop env (unionType # rest) tally =
     (case properties env unionType of
        None \<Rightarrow> Inl (HelperError ''properties'')
      | Some ps \<Rightarrow>
          (case du_properties_loop env unionType ps tally of
             Inl e \<Rightarrow> Inl e
           | Inr tally' \<Rightarrow> du_unionTypes_loop env rest tally'))"

definition discriminatedUnion ::
  "codegen_env \<Rightarrow> symbol_information \<Rightarrow> error + discriminated_union option" where
  "discriminatedUnion env sinfo =
     (case signature sinfo of
        None \<Rightarrow> Inl UndefinedAccess
      | Some (TypeSignature (UnionType ts)) \<Rightarrow>
          if ts = [] then Inr None
          else
            (case unionTypes env (UnionType ts) of
               Inl e \<Rightarrow> Inl e
             | Inr uts \<Rightarrow>
                 (case du_unionTypes_loop env uts ([], []) of
                    Inl e \<Rightarrow> Inl e
                  | Inr (candidates, memberss) \<Rightarrow>
                      (case find (\<lambda>(candidate, count). count = length uts) candidates of
                         None \<Rightarrow> Inr None
                       | Some (candidate, count) \<Rightarrow>
                           Inr (Some \<lparr>du_symbol = symbol sinfo,
                                      discriminatorDisplayName = candidate,
                                      members = (case map_of memberss candidate of
                                                   None \<Rightarrow> [] | Some ms \<Rightarrow> ms)\<rparr>))))
      | Some _ \<Rightarrow> Inr None)"

text \<open>
  For the statement of what \<^verbatim>\<open>discriminatedUnion\<close> finds: the properties of a union member
  that its inner loop counts, each with its display name and its literal, in the order of
  \<^verbatim>\<open>properties\<close>. A property is counted when \<^verbatim>\<open>stringLiteralType\<close> gives a string for its
  type and that string is not empty.
\<close>

fun property_literals :: "codegen_env \<Rightarrow> string list \<Rightarrow> error + (string \<times> string) list" where
  "property_literals env [] = Inr []"
| "property_literals env (propertySymbol # rest) =
     (case info (symtab env) propertySymbol of
        None \<Rightarrow> Inl (LookupError propertySymbol)
      | Some property \<Rightarrow>
          (case signature property of
             Some (ValueSignature t) \<Rightarrow>
               (case property_literals env rest of
                  Inl e \<Rightarrow> Inl e
                | Inr lits \<Rightarrow>
                    (case stringLiteralType env t of
                       None \<Rightarrow> Inr lits
                     | Some stringLiteral \<Rightarrow>
                         if stringLiteral = [] then Inr lits
                         else Inr ((display_name property, stringLiteral) # lits)))
           | _ \<Rightarrow> Inl UndefinedAccess))"

definition stringLiteralProperties ::
  "codegen_env \<Rightarrow> tpe \<Rightarrow> error + (string \<times> string) list" where
  "stringLiteralProperties env unionType =
     (case properties env unionType of
        None \<Rightarrow> Inl (HelperError ''properties'')
      | Some ps \<Rightarrow> property_literals env ps)"

text \<open>
  What the two maps of \<^verbatim>\<open>discriminatedUnion\<close> hold once the pairs \<open>L\<close> of display name and
  member have been tallied: under each name, how many pairs have it, and their members
  in order.
\<close>

definition tallied :: "du_tally \<Rightarrow> (string \<times> discriminated_union_member) list \<Rightarrow> bool" where
  "tallied tally L \<longleftrightarrow>
     distinct (map fst (fst tally))
     \<and> (\<forall>d. map_of (fst tally) d =
            (if filter (\<lambda>x. fst x = d) L = [] then None
             else Some (length (filter (\<lambda>x. fst x = d) L))))
     \<and> (\<forall>d. map_of (snd tally) d =
            (if filter (\<lambda>x. fst x = d) L = [] then None
             else Some (map snd (filter (\<lambda>x. fst x = d) L))))"

definition member_pairs ::
  "tpe \<Rightarrow> (string \<times> string) list \<Rightarrow> (string \<times> discriminated_union_member) list" where
  "member_pairs unionType lits =
     map (\<lambda>(n, v). (n, \<lparr>member_value = v, member_type = unionType\<rparr>)) lits"

subsection \<open>queueClassLikeInfo\<close>

text \<open>
  The entries of the local map \<^verbatim>\<open>declarations\<close>. The first loop fills the map, keyed by
  display name; the second walks its values, records the siblings and reports every
  diagnostic that carries a conflict.
\<close>

record declaration_entry =
  decl_info :: symbol_information
  decl_diagnostic :: diagnostic
  siblings :: "string list"

fun declarations_loop ::
  "codegen_env \<Rightarrow> string list \<Rightarrow> (string \<times> declaration_entry) list
     \<Rightarrow> error + (string \<times> declaration_entry) list" where
  "declarations_loop env [] declarations = Inr declarations"
| "declarations_loop env (property # rest) declarations =
     (case info (symtab env) property of
        None \<Rightarrow> Inl (LookupError property)
      | Some propertyInfo \<Rightarrow>
          (case map_of declarations (display_name propertyInfo) of
             None \<Rightarrow>
               declarations_loop env rest
                 (AList.update (display_name propertyInfo)
                    \<lparr>decl_info = propertyInfo,
                     decl_diagnostic = Diagnostic Error property IncompatibleSignatures [],
                     siblings = []\<rparr>
                    declarations)
           | Some sibling \<Rightarrow>
               if \<not> compatibleSignatures env (decl_info sibling) propertyInfo
               then declarations_loop env rest
                      (AList.update (display_name propertyInfo)
                         (sibling\<lparr>decl_diagnostic :=
                            Diagnostic (severity (decl_diagnostic sibling))
                              (diag_symbol (decl_diagnostic sibling))
                              (message (decl_diagnostic sibling))
                              (additionalInformation (decl_diagnostic sibling)
                                 @ [Diagnostic Error property ConflictHere []])\<rparr>)
                         declarations)
               else declarations_loop env rest
                      (AList.update (display_name propertyInfo)
                         (sibling\<lparr>siblings := siblings sibling @ [property]\<rparr>)
                         declarations)))"

fun declarations_report :: "declaration_entry list \<Rightarrow> codegen \<Rightarrow> codegen" where
  "declarations_report [] s = s"
| "declarations_report (d # ds) s =
     (let s1 = s\<lparr>siblingDiscriminatedUnionProperties :=
                   AList.update (symbol (decl_info d)) (siblings d)
                     (siblingDiscriminatedUnionProperties s)\<rparr>;
          s2 = (if additionalInformation (decl_diagnostic d) \<noteq> []
                then reporter_report (decl_diagnostic d) s1 else s1)
      in declarations_report ds s2)"

text \<open>
  The result of a \<^verbatim>\<open>void\<close> method is the exception it threw, if any, and the state it
  left behind.
\<close>

definition queueClassLikeInfo ::
  "codegen_env \<Rightarrow> symbol_information \<Rightarrow> codegen \<Rightarrow> error option \<times> codegen" where
  "queueClassLikeInfo env jsonrpcMethod s =
     (case signature jsonrpcMethod of
        None \<Rightarrow> (None, s)
      | Some (ClassSignature ms) \<Rightarrow> (None, queue_push jsonrpcMethod s)
      | Some sg \<Rightarrow>
          if isStringTypeInfo env jsonrpcMethod then (None, queue_push jsonrpcMethod s)
          else
            (case (if isNestedDiscriminatedUnion env
                   then discriminatedUnion env jsonrpcMethod else Inr None) of
               Inl e \<Rightarrow> (Some e, s)
             | Inr (Some du) \<Rightarrow>
                 (None,
                  queue_push jsonrpcMethod
                    (s\<lparr>discriminatedUnions :=
                         AList.update (symbol jsonrpcMethod) du (discriminatedUnions s)\<rparr>))
             | Inr None \<Rightarrow>
                 (case sg of
                    TypeSignature lower_bound \<Rightarrow>
                      (case properties env lower_bound of
                         None \<Rightarrow> (Some (HelperError ''properties''), s)
                       | Some ps \<Rightarrow>
                           (case declarations_loop env ps [] of
                              Inl e \<Rightarrow> (Some e, s)
                            | Inr declarations \<Rightarrow>
                                if declarations \<noteq> []
                                then
                                  (None,
                                   queue_push
                                     \<lparr>symbol = symbol jsonrpcMethod,
                                      display_name = display_name jsonrpcMethod,
                                      kind = UnspecifiedKind,
                                      signature = Some (ClassSignature
                                        (map (\<lambda>d. symbol (decl_info (snd d))) declarations))\<rparr>
                                     (declarations_report (map snd declarations) s))
                                else
                                  (None,
                                   reporter_warn (symbol jsonrpcMethod) NoPropertiesFound s)))
                  | _ \<Rightarrow> (Some (UnknownInfo jsonrpcMethod), s))))"

subsection \<open>queueClassLikeType\<close>

text \<open>
  \<^verbatim>\<open>type_arguments[0]\<close> of an array without type arguments, and
  \<^verbatim>\<open>nonNullableTypes[exceptionIndex]\<close> beyond the end, are \<^verbatim>\<open>undefined\<close>; the recursive call
  then fails on its first line, reading \<^verbatim>\<open>type.has_type_ref\<close>. The synthesized symbol
  information of a structural or intersection type has its three fields evaluated in
  the order written: the display name, the symbol, then \<^verbatim>\<open>this.properties(type)\<close>.
\<close>

definition exceptionIndex :: "formatter \<Rightarrow> symbol_information \<Rightarrow> nat option" where
  "exceptionIndex f jsonrpcMethod =
     map_option snd
       (find (\<lambda>(prefix, index). startsWith (symbol jsonrpcMethod) prefix)
          (unionTypeExceptionIndex f))"

definition nonNullableTypes :: "codegen_env \<Rightarrow> tpe list \<Rightarrow> tpe list" where
  "nonNullableTypes env ts = filter (\<lambda>t. \<not> isNullable (formatter (emitter env)) t) ts"

definition isKeywordTypeRef :: "codegen_env \<Rightarrow> tpe \<Rightarrow> bool" where
  "isKeywordTypeRef env t =
     (case t of TypeRef symb args \<Rightarrow> isTypescriptKeyword env symb | _ \<Rightarrow> False)"

function (sequential) queueClassLikeType ::
  "codegen_env \<Rightarrow> tpe \<Rightarrow> symbol_information \<Rightarrow> role \<Rightarrow> codegen
     \<Rightarrow> error option \<times> codegen" where
  "queueClassLikeType env (TypeRef symb args) jsonrpcMethod r s =
     (if symb = typescriptKeyword env ''array'' then
        (case args of
           [] \<Rightarrow> (Some UndefinedAccess, s)
         | a # rest \<Rightarrow> queueClassLikeType env a jsonrpcMethod r s)
      else if isRecord (formatter (emitter env)) symb then
        (case args of
           [a, b] \<Rightarrow>
             (case queueClassLikeType env a jsonrpcMethod r s of
                (Some e, s1) \<Rightarrow> (Some e, s1)
              | (None, s1) \<Rightarrow> queueClassLikeType env b jsonrpcMethod r s1)
         | _ \<Rightarrow> (Some (RecordTypeArguments (TypeRef symb args)), s))
      else if truthy (typescriptKeywordSyntax env symb) then (None, s)
      else
        (case info (symtab env) symb of
           None \<Rightarrow> (Some (LookupError symb), s)
         | Some sinfo \<Rightarrow> queueClassLikeInfo env sinfo s))"
| "queueClassLikeType env (UnionType ts) jsonrpcMethod r s =
     (if list_all has_constant_type ts then (None, s)
      else
        (let nn = nonNullableTypes env ts
         in if list_all (isKeywordTypeRef env) nn then (None, s)
            else
              (case nn of
                 [t] \<Rightarrow> queueClassLikeType env t jsonrpcMethod r s
               | _ \<Rightarrow>
                   (case exceptionIndex (formatter (emitter env)) jsonrpcMethod of
                      Some index \<Rightarrow>
                        (let s1 = reporter_warn (symbol jsonrpcMethod)
                                    (ResolvingUnsupportedUnion index jsonrpcMethod) s
                         in if index < length nn
                            then queueClassLikeType env (nn ! index)
                                   jsonrpcMethod r s1
                            else (Some UndefinedAccess, s1))
                    | None \<Rightarrow> (Some (UnsupportedUnionType jsonrpcMethod), s)))))"
| "queueClassLikeType env (ConstantType c) jsonrpcMethod r s = (None, s)"
| "queueClassLikeType env t jsonrpcMethod r s =
     (if has_structural_type t \<or> has_intersection_type t then
        (let name = jsonrpcTypeName (formatter (emitter env)) jsonrpcMethod t r
         in case properties env t of
              None \<Rightarrow> (Some (HelperError ''properties''), s)
            | Some ps \<Rightarrow>
                queueClassLikeInfo env
                  \<lparr>symbol = symbol jsonrpcMethod @ ''('' @ role_text r @ '').'',
                   display_name = name,
                   kind = UnspecifiedKind,
                   signature = Some (ClassSignature ps)\<rparr> s)
      else (Some (UnsupportedType t), s))"
  by pat_completeness auto

text \<open>Every recursive call is on a type argument or on a member of the union.\<close>

termination queueClassLikeType
proof -
  have member: "size x < Suc (size_list size ts)" if "x \<in> set ts"
    for x :: tpe and ts :: "tpe list"
    using that by (induction ts) auto
  have first: "size t < Suc (size_list size ts)" if "t # rest = nonNullableTypes env ts"
    for t :: tpe and rest ts env
    by (rule member) (metis that nonNullableTypes_def filter_is_subset list.set_intros(1) subsetD)
  have nth: "size (nonNullableTypes env ts ! i) < Suc (size_list size ts)"
    if "i < length (nonNullableTypes env ts)" for ts :: "tpe list" and env i
    by (rule member) (metis that nonNullableTypes_def filter_is_subset nth_mem subsetD)
  show ?thesis
    by (relation "measure (\<lambda>(env, t, jsonrpcMethod, r, s). size t)")
      (auto intro: first simp: nth)
qed

subsection \<open>Documents and the emitter\<close>

text \<open>
  Modelled from the spec: the emitters (\<^verbatim>\<open>./emitters/*\<close>) and the \<^verbatim>\<open>CodePrinter\<close> are
  missing. An emitter "renders structured generation requests into printed source
  text" and "does not alter the engine's decisions", so the text a \<^verbatim>\<open>CodePrinter\<close> has
  collected is represented by the sequence of requests made with it, and a written file
  by its path and that sequence.
\<close>

record enum_member =
  serializedName :: string
  formattedName :: string

record enum =
  enum_name :: string
  enum_members :: "enum_member list"

record member =
  member_info :: symbol_information
  member_typeSyntax :: string
  member_formattedName :: string
  oneOfComment :: string
  member_isNullable :: bool

record data_class_options =
  innerClass :: "bool option"
  parentClass :: "string option"

record data_class = data_class_options +
  dc_name :: string
  dc_info :: symbol_information
  dc_members :: "member list"
  dc_enums :: "enum list"

record alias_request =
  ta_name :: string
  ta_alias :: string
  ta_isStringType :: bool
  ta_info :: symbol_information
  ta_enum :: "enum option"

datatype request =
    EmitNullAlias
  | EmitProtocolInterface string "symbol_information list" "symbol_information list"
  | StartType string symbol_information
  | CloseType string symbol_information
  | EmitTypeAlias alias_request
  | StartSealedClass string symbol_information discriminated_union
  | CloseSealedClass string symbol_information discriminated_union
  | EmitDataClass data_class
  | EmitSerializationAdapter "string list"
  | EmitStringLiteralConstants "string list"

type_synonym document = "request list"

text \<open>The data classes requested in a document, in order.\<close>

fun dataClasses :: "document \<Rightarrow> data_class list" where
  "dataClasses [] = []"
| "dataClasses (EmitDataClass dc # p) = dc # dataClasses p"
| "dataClasses (r # p) = dataClasses p"

text \<open>The symbols of the types opened in a document (\<^verbatim>\<open>startType\<close>), in order.\<close>

fun typesWritten :: "document \<Rightarrow> string list" where
  "typesWritten [] = []"
| "typesWritten (StartType n sinfo # p) = symbol sinfo # typesWritten p"
| "typesWritten (r # p) = typesWritten p"

text \<open>
  What lies outside the engine: the files written under the output directory, and the
  rejections of promises nobody awaits (\<^verbatim>\<open>writeSealedClass\<close> is called without
  \<^verbatim>\<open>await\<close>).
\<close>

record host =
  files :: "(string \<times> document) list"
  unhandledRejections :: "error list"

fun join :: "string \<Rightarrow> string list \<Rightarrow> string" where
  "join sep [] = []"
| "join sep [x] = x"
| "join sep (x # y # ys) = x @ sep @ join sep (y # ys)"

text \<open>\<^verbatim>\<open>Set.prototype.add\<close> on an insertion-ordered set.\<close>

definition set_add :: "string \<Rightarrow> string list \<Rightarrow> string list" where
  "set_add x xs = (if x \<in> set xs then xs else xs @ [x])"

definition add_constants :: "string list \<Rightarrow> codegen \<Rightarrow> codegen" where
  "add_constants constants s =
     s\<lparr>stringLiteralConstants := foldl (\<lambda>xs c. set_add c xs) (stringLiteralConstants s) constants\<rparr>"

definition enum_of :: "codegen_env \<Rightarrow> string \<Rightarrow> string list \<Rightarrow> enum" where
  "enum_of env n constants =
     \<lparr>enum_name = n,
      enum_members = map (\<lambda>constant.
        \<lparr>serializedName = constant,
         formattedName = formatFieldName (formatter (emitter env)) (capitalize env constant)\<rparr>)
        constants\<rparr>"

subsection \<open>writeDataClass\<close>

text \<open>
  One turn of the loop of \<^verbatim>\<open>writeDataClassUnsafe\<close> over the member symbols. The locals
  \<^verbatim>\<open>generatedName\<close>, \<^verbatim>\<open>enums\<close> and \<^verbatim>\<open>members\<close> are the accumulator; the result is the
  exception thrown out of the loop, or the accumulator for the next turn. The test on
  \<^verbatim>\<open>ignoredProperties.find(...)\<close> is a test of the string found, so an empty entry of the
  list ignores nothing.
\<close>

definition isIgnoredProperty :: "formatter \<Rightarrow> string \<Rightarrow> bool" where
  "isIgnoredProperty f memberSymbol =
     truthy (find (\<lambda>ignoredProperty. str_includes memberSymbol ignoredProperty)
               (ignoredProperties f))"

type_synonym data_class_acc = "string set \<times> enum list \<times> member list"

definition writeDataClass_member ::
  "codegen_env \<Rightarrow> string \<Rightarrow> data_class_acc \<Rightarrow> codegen
     \<Rightarrow> (error + data_class_acc) \<times> codegen" where
  "writeDataClass_member env memberSymbol acc s =
     (let f = formatter (emitter env);
          generatedName = fst acc; enums = fst (snd acc); ms = snd (snd acc)
      in if isIgnoredProperty f memberSymbol then (Inr acc, s)
         else if endsWith memberSymbol ''().'' then (Inr acc, s)
         else
           (case info (symtab env) memberSymbol of
              None \<Rightarrow> (Inl (LookupError memberSymbol), s)
            | Some m \<Rightarrow>
                if display_name m \<in> generatedName then (Inr acc, s)
                else
                  (let generatedName1 = insert (display_name m) generatedName
                   in case signature m of
                        None \<Rightarrow> (Inl UndefinedAccess, s)
                      | Some (ValueSignature memberType) \<Rightarrow>
                          if has_lambda_type memberType
                          then (Inr (generatedName1, enums, ms),
                                reporter_warn memberSymbol
                                  (IgnoringLambdaProperty (display_name m)) s)
                          else if isIgnoredType f memberType
                          then (Inr (generatedName1, enums, ms), s)
                          else
                            (let memberTypeSyntax = jsonrpcTypeName f m memberType Parameter;
                                 constants = stringConstantsFromInfo env m;
                                 s1 = add_constants constants s;
                                 oneofSyntax =
                                   (if constants \<noteq> []
                                    then '' // Oneof: '' @ join '', '' constants else []);
                                 fieldName = formatFieldName f (display_name m)
                             in if constants \<noteq> [] \<and> startsWith memberTypeSyntax ''String''
                                then
                                  (let enumTypeName = formatEnumType f (display_name m)
                                   in (Inr (generatedName1,
                                            enums @ [enum_of env enumTypeName constants],
                                            ms @ [\<lparr>member_info = m,
                                                   member_typeSyntax =
                                                     enumTypeName @ nullableSyntax f memberType,
                                                   member_formattedName = fieldName,
                                                   oneOfComment = oneofSyntax,
                                                   member_isNullable = isNullable f memberType\<rparr>]),
                                       s1))
                                else
                                  (case queueClassLikeType env memberType m Parameter s1 of
                                     (Some e, s2) \<Rightarrow>
                                       (Inr (generatedName1, enums, ms),
                                        reporter_error memberSymbol
                                          (ErrorHandlingMember (symbol m) e) s2)
                                   | (None, s2) \<Rightarrow>
                                       (Inr (generatedName1, enums,
                                             ms @ [\<lparr>member_info = m,
                                                    member_typeSyntax = memberTypeSyntax,
                                                    member_formattedName = fieldName,
                                                    oneOfComment = oneofSyntax,
                                                    member_isNullable =
                                                      isNullable f memberType\<rparr>]),
                                        s2)))
                      | Some _ \<Rightarrow> (Inl (NotAValueSignature m), s))))"

fun writeDataClass_members ::
  "codegen_env \<Rightarrow> string list \<Rightarrow> data_class_acc \<Rightarrow> codegen
     \<Rightarrow> (error + data_class_acc) \<times> codegen" where
  "writeDataClass_members env [] acc s = (Inr acc, s)"
| "writeDataClass_members env (memberSymbol # rest) acc s =
     (case writeDataClass_member env memberSymbol acc s of
        (Inl e, s1) \<Rightarrow> (Inl e, s1)
      | (Inr acc1, s1) \<Rightarrow> writeDataClass_members env rest acc1 s1)"

definition writeDataClassUnsafe ::
  "codegen_env \<Rightarrow> document \<Rightarrow> string \<Rightarrow> symbol_information \<Rightarrow> data_class_options
     \<Rightarrow> codegen \<Rightarrow> error option \<times> document \<times> codegen" where
  "writeDataClassUnsafe env p n sinfo params s =
     (let s0 = (if kind sinfo = Class
                then reporter_warn (symbol sinfo) ClassesShouldNotBeExposed s else s)
      in case infoProperties env sinfo of
           None \<Rightarrow> (Some (HelperError ''infoProperties''), p, s0)
         | Some memberSymbols \<Rightarrow>
             (case writeDataClass_members env memberSymbols ({}, [], []) s0 of
                (Inl e, s1) \<Rightarrow> (Some e, p, s1)
              | (Inr (generatedName, enums, ms), s1) \<Rightarrow>
                  (None,
                   p @ [EmitDataClass
                          \<lparr>innerClass = innerClass params, parentClass = parentClass params,
                           dc_name = n, dc_info = sinfo, dc_members = ms, dc_enums = enums\<rparr>],
                   s1)))"

text \<open>
  \<^verbatim>\<open>writeDataClass\<close> is called without \<^verbatim>\<open>await\<close>: it runs \<^verbatim>\<open>writeDataClassUnsafe\<close> to
  its end, and its \<^verbatim>\<open>catch\<close> block runs only when the caller next awaits. The third
  component of the result is what that block will report then.
\<close>

definition writeDataClass ::
  "codegen_env \<Rightarrow> document \<Rightarrow> string \<Rightarrow> symbol_information \<Rightarrow> data_class_options
     \<Rightarrow> codegen \<Rightarrow> document \<times> codegen \<times> diagnostic list" where
  "writeDataClass env p n sinfo params s =
     (case writeDataClassUnsafe env p n sinfo params s of
        (Some e, p1, s1) \<Rightarrow>
          (p1, s1, [Diagnostic Error (symbol sinfo) (FailedToHandleClass (symbol sinfo) e) []])
      | (None, p1, s1) \<Rightarrow> (p1, s1, []))"

subsection \<open>writeSealedClass\<close>

text \<open>The first loop: \<^verbatim>\<open>isHandledCase\<close> and \<^verbatim>\<open>union.members\<close> are the accumulators.\<close>

fun sealed_dedup ::
  "string \<Rightarrow> discriminated_union_member list \<Rightarrow> string set
     \<Rightarrow> discriminated_union_member list \<Rightarrow> codegen
     \<Rightarrow> discriminated_union_member list \<times> codegen" where
  "sealed_dedup symb [] isHandledCase kept s = (kept, s)"
| "sealed_dedup symb (m # rest) isHandledCase kept s =
     (if member_value m \<in> isHandledCase
      then sealed_dedup symb rest isHandledCase kept
             (reporter_warn symb (DuplicateDiscriminatorValue (member_value m)) s)
      else sealed_dedup symb rest (insert (member_value m) isHandledCase) (kept @ [m]) s)"

definition sealed_member_info ::
  "codegen_env \<Rightarrow> string \<Rightarrow> discriminated_union_member \<Rightarrow> error + symbol_information" where
  "sealed_member_info env tn m =
     (case member_type m of
        TypeRef symb args \<Rightarrow>
          (case info (symtab env) symb of
             None \<Rightarrow> Inl (LookupError symb)
           | Some sinfo \<Rightarrow> Inr sinfo)
      | t \<Rightarrow>
          Inr \<lparr>symbol = [], display_name = tn, kind = UnspecifiedKind,
               signature = Some (ValueSignature t)\<rparr>)"

text \<open>
  The second loop, over \<^verbatim>\<open>union.members\<close>. No call of \<^verbatim>\<open>writeDataClass\<close> is awaited, so
  what their \<^verbatim>\<open>catch\<close> blocks will report is collected in \<open>deferred\<close>.
\<close>

fun sealed_inner ::
  "codegen_env \<Rightarrow> string \<Rightarrow> discriminated_union \<Rightarrow> discriminated_union_member list
     \<Rightarrow> document \<Rightarrow> codegen \<Rightarrow> diagnostic list
     \<Rightarrow> error option \<times> document \<times> codegen \<times> diagnostic list" where
  "sealed_inner env n un [] p s deferred = (None, p, s, deferred)"
| "sealed_inner env n un (m # rest) p s deferred =
     (let tn = discriminatedUnionTypeName (formatter (emitter env)) un m
      in case sealed_member_info env tn m of
           Inl e \<Rightarrow> (Some e, p, s, deferred)
         | Inr sinfo \<Rightarrow>
             (case writeDataClass env p tn sinfo
                     \<lparr>innerClass = Some True, parentClass = Some n\<rparr> s of
                (p1, s1, d) \<Rightarrow> sealed_inner env n un rest p1 s1 (deferred @ d)))"

definition writeSealedClass ::
  "codegen_env \<Rightarrow> document \<Rightarrow> string \<Rightarrow> symbol_information \<Rightarrow> discriminated_union
     \<Rightarrow> codegen \<Rightarrow> error option \<times> document \<times> codegen \<times> diagnostic list" where
  "writeSealedClass env p n sinfo du s =
     (case sealed_dedup (symbol sinfo) (members du) {} [] s of
        (kept, s1) \<Rightarrow>
          (let un = du\<lparr>members := kept\<rparr>
           in case sealed_inner env n un kept (p @ [StartSealedClass n sinfo un]) s1 [] of
                (Some e, p2, s2, deferred) \<Rightarrow> (Some e, p2, s2, deferred)
              | (None, p2, s2, deferred) \<Rightarrow>
                  (None,
                   (if hasCloseSealedClass env
                    then p2 @ [CloseSealedClass n sinfo un] else p2),
                   s2, deferred)))"


subsection \<open>writeType\<close>

definition aliasType ::
  "codegen_env \<Rightarrow> symbol_information \<Rightarrow> codegen \<Rightarrow> string option \<times> codegen" where
  "aliasType env sinfo s =
     (if display_name sinfo = ''Date'' then (Some ''String'', s)
      else if isStringTypeInfo env sinfo then
        (let constants = stringConstantsFromInfo env sinfo
         in (Some (''String // One of: '' @ join '', '' constants), add_constants constants s))
      else (None, s))"

text \<open>
  A write appends to the list of files written; \<^verbatim>\<open>fspromises.writeFile\<close> itself is not
  taken to fail.
\<close>

definition writeFile :: "string \<Rightarrow> document \<Rightarrow> host \<Rightarrow> host" where
  "writeFile path p io = io\<lparr>files := files io @ [(path, p)]\<rparr>"

definition reject :: "error option \<Rightarrow> host \<Rightarrow> host" where
  "reject r io =
     (case r of
        None \<Rightarrow> io
      | Some e \<Rightarrow> io\<lparr>unhandledRejections := unhandledRejections io @ [e]\<rparr>)"

text \<open>The symbols of the types written to the files so far, one for each write.\<close>

definition writtenSymbols :: "host \<Rightarrow> string list" where
  "writtenSymbols io = concat (map (\<lambda>file. typesWritten (snd file)) (files io))"

text \<open>
  \<^verbatim>\<open>writeType\<close> awaits only the write of the file. The document is built before that
  write starts; the deferred reports of the \<^verbatim>\<open>catch\<close> blocks arrive while it is awaited.
\<close>

definition writeType ::
  "codegen_env \<Rightarrow> symbol_information \<Rightarrow> codegen \<Rightarrow> host \<Rightarrow> codegen \<times> host" where
  "writeType env sinfo s io =
     (let f = formatter (emitter env);
          n = typeName f sinfo
      in case aliasType env sinfo s of
           (alias, s1) \<Rightarrow>
             if isIgnoredInfo f sinfo then (s1, io)
             else
               (case
                  (if truthy alias then
                     (let isStringType = isStringTypeInfo env sinfo;
                          constants = stringConstantsFromInfo env sinfo;
                          en = (if isStringType \<and> constants \<noteq> []
                                   then Some (enum_of env n constants) else None)
                      in (None,
                          [StartType n sinfo,
                           EmitTypeAlias \<lparr>ta_name = n, ta_alias = the alias,
                                          ta_isStringType = isStringType, ta_info = sinfo,
                                          ta_enum = en\<rparr>],
                          s1, []))
                   else
                     (case map_of (discriminatedUnions s1) (symbol sinfo) of
                        Some du \<Rightarrow> writeSealedClass env [StartType n sinfo] n sinfo du s1
                      | None \<Rightarrow>
                          (case writeDataClass env [StartType n sinfo] n sinfo
                                  \<lparr>innerClass = None, parentClass = None\<rparr> s1 of
                             (p1, s2, d) \<Rightarrow> (None, p1, s2, d))))
                of (rejected, p2, s2, deferred) \<Rightarrow>
                  (foldl (\<lambda>st d. reporter_report d st) s2 deferred,
                   writeFile
                     (path_join env (outputPath env)
                        (getFileNameForType (emitter env) (display_name sinfo)))
                     (p2 @ [CloseType n sinfo])
                     (reject rejected io))))"

subsection \<open>writeProtocolInterface\<close>

text \<open>
  The loops over the requests and the notifications of a protocol. Reading
  \<^verbatim>\<open>request.signature.value_signature.tpe.type_ref.type_arguments\<close> of a request whose
  signature is not a value signature of a type reference reads a property of
  \<^verbatim>\<open>undefined\<close>. An exception of \<^verbatim>\<open>queueClassLikeType\<close> is not caught here.
\<close>

fun requests_loop ::
  "codegen_env \<Rightarrow> symbol_information list \<Rightarrow> symbol_information list \<Rightarrow> codegen
     \<Rightarrow> error option \<times> symbol_information list \<times> codegen" where
  "requests_loop env [] requests s = (None, requests, s)"
| "requests_loop env (request # rest) requests s =
     (if display_name request = ''webview/receiveMessage''
         \<or> display_name request = ''chat/submitMessage''
         \<or> display_name request = ''chat/editMessage''
      then requests_loop env rest requests s
      else
        (case signature request of
           Some (ValueSignature (TypeRef symb args)) \<Rightarrow>
             (case args of
                a # resultType # others \<Rightarrow>
                  (case queueClassLikeType env (jsonrpcMethodParameter env request)
                          request Parameter s of
                     (Some e, s1) \<Rightarrow> (Some e, requests, s1)
                   | (None, s1) \<Rightarrow>
                       (case queueClassLikeType env resultType request Result s1 of
                          (Some e, s2) \<Rightarrow> (Some e, requests, s2)
                        | (None, s2) \<Rightarrow> requests_loop env rest (requests @ [request]) s2))
              | _ \<Rightarrow>
                  requests_loop env rest requests
                    (reporter_error (symbol request) MissingResultType s))
         | _ \<Rightarrow> (Some UndefinedAccess, requests, s)))"

fun notifications_loop ::
  "codegen_env \<Rightarrow> symbol_information list \<Rightarrow> symbol_information list \<Rightarrow> codegen
     \<Rightarrow> error option \<times> symbol_information list \<times> codegen" where
  "notifications_loop env [] notifications s = (None, notifications, s)"
| "notifications_loop env (notification # rest) notifications s =
     (if display_name notification = ''webview/postMessage''
      then notifications_loop env rest notifications s
      else
        (case queueClassLikeType env (jsonrpcMethodParameter env notification)
                notification Parameter s of
           (Some e, s1) \<Rightarrow> (Some e, notifications, s1)
         | (None, s1) \<Rightarrow> notifications_loop env rest (notifications @ [notification]) s1))"

definition writeProtocolInterface ::
  "codegen_env \<Rightarrow> string \<Rightarrow> string \<Rightarrow> string \<Rightarrow> codegen \<Rightarrow> host
     \<Rightarrow> error option \<times> codegen \<times> host" where
  "writeProtocolInterface env n requestSymbol notificationSymbol s io =
     (case structuralType (symtab env) (canonicalSymbol (symtab env) requestSymbol) of
        None \<Rightarrow> (Some (HelperError ''structuralType''), s, io)
      | Some rs \<Rightarrow>
          (case requests_loop env rs [] s of
             (Some e, requests, s1) \<Rightarrow> (Some e, s1, io)
           | (None, requests, s1) \<Rightarrow>
               (case structuralType (symtab env)
                       (canonicalSymbol (symtab env) notificationSymbol) of
                  None \<Rightarrow> (Some (HelperError ''structuralType''), s1, io)
                | Some ns \<Rightarrow>
                    (case notifications_loop env ns [] s1 of
                       (Some e, notifications, s2) \<Rightarrow> (Some e, s2, io)
                     | (None, notifications, s2) \<Rightarrow>
                         (None, s2,
                          writeFile
                            (path_join env (outputPath env)
                               (n @ ''.'' @ getFileType (emitter env)))
                            [EmitProtocolInterface n requests notifications] io)))))"

subsection \<open>The shared files\<close>

definition writeNullAlias :: "codegen_env \<Rightarrow> host \<Rightarrow> host" where
  "writeNullAlias env io =
     writeFile (path_join env (outputPath env) (''Null.'' @ getFileType (emitter env)))
       [EmitNullAlias] io"

fun display_names :: "codegen_env \<Rightarrow> string list \<Rightarrow> error + string list" where
  "display_names env [] = Inr []"
| "display_names env (symb # rest) =
     (case info (symtab env) symb of
        None \<Rightarrow> Inl (LookupError symb)
      | Some sinfo \<Rightarrow>
          (case display_names env rest of
             Inl e \<Rightarrow> Inl e
           | Inr ns \<Rightarrow> Inr (display_name sinfo # ns)))"

text \<open>
  \<^verbatim>\<open>Array.prototype.sort\<close> without a comparison function orders strings by their code
  units, as the lexicographic order on \<^typ>\<open>string\<close> does.
\<close>

definition writeSerializationAdapters ::
  "codegen_env \<Rightarrow> codegen \<Rightarrow> host \<Rightarrow> error option \<times> host" where
  "writeSerializationAdapters env s io =
     (if discriminatedUnions s = [] then (None, io)
      else
        (case display_names env (sort (map fst (discriminatedUnions s))) of
           Inl e \<Rightarrow> (Some e, io)
         | Inr ns \<Rightarrow>
             (None,
              writeFile
                (path_join env (outputPath env)
                   (''ProtocolTypeAdapters.'' @ getFileType (emitter env)))
                [EmitSerializationAdapter ns] io)))"

definition writeStringLiteralConstants :: "codegen_env \<Rightarrow> codegen \<Rightarrow> host \<Rightarrow> host" where
  "writeStringLiteralConstants env s io =
     (if stringLiteralConstants s = [] then io
      else
        writeFile
          (path_join env (outputPath env) (''Constants.'' @ getFileType (emitter env)))
          [EmitStringLiteralConstants (sort (stringLiteralConstants s))] io)"

subsection \<open>run\<close>

definition queue_pop :: "codegen \<Rightarrow> (symbol_information \<times> codegen) option" where
  "queue_pop s =
     (if queue s = [] then None
      else Some (last (queue s), s\<lparr>queue := butlast (queue s)\<rparr>))"

text \<open>
  The \<^verbatim>\<open>while\<close> loop of \<^verbatim>\<open>run\<close>, cut after \<open>n\<close> turns: the result says whether the
  loop has ended (the queue was found empty), and gives the state reached.
\<close>

fun drain :: "codegen_env \<Rightarrow> nat \<Rightarrow> codegen \<Rightarrow> host \<Rightarrow> bool \<times> codegen \<times> host" where
  "drain env 0 s io = (queue s = [], s, io)"
| "drain env (Suc n) s io =
     (case queue_pop s of
        None \<Rightarrow> (True, s, io)
      | Some (sinfo, s1) \<Rightarrow>
          if symbol sinfo \<notin> generatedSymbols s1 then
            (case writeType env sinfo s1 io of
               (s2, io2) \<Rightarrow>
                 drain env n
                   (s2\<lparr>generatedSymbols := insert (symbol sinfo) (generatedSymbols s2)\<rparr>) io2)
          else drain env n s1 io)"

definition new_codegen :: codegen where
  "new_codegen =
     \<lparr>queue = [], generatedSymbols = {}, stringLiteralConstants = [],
      discriminatedUnions = [], siblingDiscriminatedUnionProperties = [],
      diagnostics = []\<rparr>"

text \<open>
  Modelled from the spec: \<^verbatim>\<open>resetOutputPath\<close>, whose source is missing, resets the output
  directory, "destructive; must not silently merge with stale files".
\<close>

definition resetOutputPath :: "host \<Rightarrow> host" where
  "resetOutputPath io = io\<lparr>files := []\<rparr>"

text \<open>
  The part of \<^verbatim>\<open>run\<close> before its loop, and \<^verbatim>\<open>run\<close> itself on a fresh engine. With
  \<open>n\<close> turns of the loop allowed, \<open>None\<close> says that the loop is still running after
  them; otherwise the result is the exception \<^verbatim>\<open>run\<close> rejects with, if any, and the final
  state. The closing \<^verbatim>\<open>mkdir\<close> changes no file.
\<close>

definition run_protocols ::
  "codegen_env \<Rightarrow> host \<Rightarrow> error option \<times> codegen \<times> host" where
  "run_protocols env io =
     (case writeProtocolInterface env ''CodyAgentServer''
             (clientRequests env) (clientNotifications env) new_codegen
             (writeNullAlias env (resetOutputPath io)) of
        (Some e, s1, io1) \<Rightarrow> (Some e, s1, io1)
      | (None, s1, io1) \<Rightarrow>
          writeProtocolInterface env ''CodyAgentClient''
            (serverRequests env) (serverNotifications env) s1 io1)"

definition run ::
  "codegen_env \<Rightarrow> nat \<Rightarrow> host \<Rightarrow> (error option \<times> codegen \<times> host) option" where
  "run env n io =
     (case run_protocols env io of
        (Some e, s2, io2) \<Rightarrow> Some (Some e, s2, io2)
      | (None, s2, io2) \<Rightarrow>
          (case drain env n s2 io2 of
             (False, s3, io3) \<Rightarrow> None
           | (True, s3, io3) \<Rightarrow>
               (case writeSerializationAdapters env s3 io3 of
                  (Some e, io4) \<Rightarrow> Some (Some e, s3, io4)
                | (None, io4) \<Rightarrow>
                    Some (None, s3, writeStringLiteralConstants env s3 io4))))"

section \<open>An example configuration and symbol graph\<close>

text \<open>
  A configuration in the style of the Kotlin target, used to run the engine on concrete
  inputs. Keyword symbols are the ones scip-typescript gives to the built-in types, the
  nullable types are \<^verbatim>\<open>null\<close> and \<^verbatim>\<open>undefined\<close>, and a string literal type is a constant type.
\<close>

definition keywordPrefix :: string where
  "keywordPrefix = ''scip-typescript npm typescript . ''"

definition kw :: "string \<Rightarrow> string" where
  "kw k = keywordPrefix @ k @ ''#''"

definition example_isNullable :: "tpe \<Rightarrow> bool" where
  "example_isNullable t = (t = TypeRef (kw ''null'') [] \<or> t = TypeRef (kw ''undefined'') [])"

fun example_suffix :: "role \<Rightarrow> string" where
  "example_suffix Parameter = ''Params''"
| "example_suffix Result = ''Result''"

definition example_formatter :: formatter where
  "example_formatter =
     \<lparr>ignoredProperties = [''internal''],
      unionTypeExceptionIndex = [(''vscode/'', 0)],
      isRecord = (\<lambda>symb. symb = ''Record#''),
      isNullable = example_isNullable,
      isIgnoredType = (\<lambda>t. False),
      isIgnoredInfo = (\<lambda>sinfo. False),
      typeName = display_name,
      synthesizedTypeName = (\<lambda>symb r. symb @ example_suffix r),
      typeSyntax = (\<lambda>sinfo t r. ''Any''),
      formatEnumType = (\<lambda>n. n @ ''Enum''),
      nullableSyntax = (\<lambda>t. ''?''),
      formatFieldName = (\<lambda>n. n),
      discriminatedUnionTypeName = (\<lambda>du m. member_value m)\<rparr>"

definition example_emitter :: emitter where
  "example_emitter =
     \<lparr>formatter = example_formatter, getFileType = ''kt'',
      getFileNameForType = (\<lambda>n. n @ ''.kt'')\<rparr>"

definition property_entry :: "string \<Rightarrow> string \<Rightarrow> tpe \<Rightarrow> string \<times> symbol_information" where
  "property_entry symb n t =
     (symb, \<lparr>symbol = symb, display_name = n, kind = UnspecifiedKind,
             signature = Some (ValueSignature t)\<rparr>)"

definition class_info :: "string \<Rightarrow> string \<Rightarrow> string list \<Rightarrow> symbol_information" where
  "class_info symb n ms =
     \<lparr>symbol = symb, display_name = n, kind = UnspecifiedKind,
      signature = Some (ClassSignature ms)\<rparr>"

definition alias_info :: "string \<Rightarrow> string \<Rightarrow> tpe \<Rightarrow> symbol_information" where
  "alias_info symb n t =
     \<lparr>symbol = symb, display_name = n, kind = UnspecifiedKind,
      signature = Some (TypeSignature t)\<rparr>"

text \<open>
  The graph: an interface \<^verbatim>\<open>Foo { bar: string }\<close>; an interface \<^verbatim>\<open>Bad\<close> whose member is
  not a value; an interface \<^verbatim>\<open>Dup\<close> listing two members named \<^verbatim>\<open>x\<close>, and \<^verbatim>\<open>Dup2\<close>
  where the first of them is on the ignore list; the union
  \<^verbatim>\<open>PingResult = { kind: 'ok', value: string } | { kind: 'error', message: string }\<close>;
  the union \<^verbatim>\<open>Blank = { kind: '' } | { kind: 'b' }\<close>; and a protocol with the request
  \<^verbatim>\<open>ping: [Foo, PingResult]\<close> and the notification \<^verbatim>\<open>notify: [Foo]\<close>.
\<close>

definition example_symbols :: "(string \<times> symbol_information) list" where
  "example_symbols =
     [(''Foo#'', class_info ''Foo#'' ''Foo'' [''Foo#bar.'']),
      property_entry ''Foo#bar.'' ''bar'' (TypeRef (kw ''string'') []),
      (''Bad#'', class_info ''Bad#'' ''Bad'' [''Bad#m.'']),
      (''Bad#m.'', \<lparr>symbol = ''Bad#m.'', display_name = ''m'', kind = UnspecifiedKind,
                    signature = Some OtherSignature\<rparr>),
      (''Dup#'', class_info ''Dup#'' ''Dup'' [''A#x.'', ''B#x.'']),
      (''Dup2#'', class_info ''Dup2#'' ''Dup2'' [''A#internal_x.'', ''B#x.'']),
      property_entry ''A#x.'' ''x'' (TypeRef (kw ''string'') []),
      property_entry ''A#internal_x.'' ''x'' (TypeRef (kw ''string'') []),
      property_entry ''B#x.'' ''x'' (TypeRef (kw ''number'') []),
      (''PingResult#'', alias_info ''PingResult#'' ''PingResult''
         (UnionType [StructuralType [''Ok#kind.'', ''Ok#value.''],
                     StructuralType [''Err#kind.'', ''Err#message.'']])),
      property_entry ''Ok#kind.'' ''kind'' (ConstantType ''ok''),
      property_entry ''Ok#value.'' ''value'' (TypeRef (kw ''string'') []),
      property_entry ''Err#kind.'' ''kind'' (ConstantType ''error''),
      property_entry ''Err#message.'' ''message'' (TypeRef (kw ''string'') []),
      (''Blank#'', alias_info ''Blank#'' ''Blank''
         (UnionType [StructuralType [''E1#kind.''], StructuralType [''E2#kind.'']])),
      property_entry ''E1#kind.'' ''kind'' (ConstantType ''''),
      property_entry ''E2#kind.'' ''kind'' (ConstantType ''b''),
      property_entry ''ping.'' ''ping''
        (TypeRef (kw ''array'') [TypeRef ''Foo#'' [], TypeRef ''PingResult#'' []]),
      property_entry ''notify.'' ''notify'' (TypeRef (kw ''array'') [TypeRef ''Foo#'' []])]"

definition example_symtab :: symbol_table where
  "example_symtab =
     \<lparr>info = map_of example_symbols,
      canonicalSymbol = (\<lambda>symb. symb),
      structuralType = (\<lambda>symb.
        if symb = ''Requests#''
        then map_option (\<lambda>sinfo. [sinfo]) (map_of example_symbols ''ping.'')
        else if symb = ''Notifications#''
        then map_option (\<lambda>sinfo. [sinfo]) (map_of example_symbols ''notify.'')
        else Some [])\<rparr>"

definition example_stringLiteralType :: "tpe \<Rightarrow> string option" where
  "example_stringLiteralType t = (case t of ConstantType v \<Rightarrow> Some v | _ \<Rightarrow> None)"

definition example_infoProperties :: "symbol_information \<Rightarrow> string list option" where
  "example_infoProperties sinfo =
     (case signature sinfo of Some (ClassSignature ms) \<Rightarrow> Some ms | _ \<Rightarrow> Some [])"

fun example_properties :: "tpe \<Rightarrow> string list option" where
  "example_properties (StructuralType ms) = Some ms"
| "example_properties (TypeRef symb args) =
     (case map_of example_symbols symb of
        None \<Rightarrow> None
      | Some sinfo \<Rightarrow> example_infoProperties sinfo)"
| "example_properties t = Some []"

definition example_env :: codegen_env where
  "example_env =
     \<lparr>symtab = example_symtab,
      emitter = example_emitter,
      typescriptKeyword = kw,
      isTypescriptKeyword = (\<lambda>symb. startsWith symb keywordPrefix),
      typescriptKeywordSyntax = (\<lambda>symb.
        if startsWith symb keywordPrefix
        then Some (butlast (drop (length keywordPrefix) symb)) else None),
      capitalize = (\<lambda>n. n),
      stringLiteralType = example_stringLiteralType,
      properties = example_properties,
      infoProperties = example_infoProperties,
      isStringTypeInfo = (\<lambda>sinfo. False),
      stringConstantsFromInfo = (\<lambda>sinfo. []),
      compatibleSignatures = (\<lambda>a b. signature a = signature b),
      isNestedDiscriminatedUnion = True,
      stackLimit = Suc (Suc (Suc (Suc 0))),
      outputPath = ''out'',
      path_join = (\<lambda>a b. a @ ''/'' @ b),
      clientRequests = ''Requests#'',
      clientNotifications = ''Notifications#'',
      serverRequests = ''ServerRequests#'',
      serverNotifications = ''ServerNotifications#'',
      jsonrpcMethodParameter = (\<lambda>sinfo.
        case signature sinfo of
          Some (ValueSignature (TypeRef symb (a # rest))) \<Rightarrow> a
        | _ \<Rightarrow> OtherType),
      hasCloseSealedClass = True\<rparr>"

definition example_method :: symbol_information where
  "example_method = snd (property_entry ''Api#method.'' ''method'' OtherType)"

definition example_host :: host where
  "example_host = \<lparr>files = [], unhandledRejections = []\<rparr>"



text \<open>The equations that evaluate the engine on the example.\<close>

lemmas example_defs =
  example_env_def example_emitter_def example_formatter_def example_symtab_def
  example_symbols_def kw_def keywordPrefix_def example_isNullable_def example_method_def
  property_entry_def class_info_def alias_info_def example_stringLiteralType_def
  example_infoProperties_def new_codegen_def example_host_def

lemmas engine_defs =
  nonNullableTypes_def isKeywordTypeRef_def exceptionIndex_def startsWith_def endsWith_def
  truthy_def queueClassLikeInfo_def queue_push_def reporter_warn_def reporter_error_def
  reporter_report_def jsonrpcTypeName_def

lemmas data_class_defs =
  writeDataClassUnsafe_def writeDataClass_member_def isIgnoredProperty_def add_constants_def
  Let_def

section \<open>Properties of the engine\<close>

subsection \<open>Unions of primitive keywords\<close>

text \<open>
  Claim C8. For a union type all of whose non-nullable members are type references to
  TypeScript keyword symbols (such as \<^verbatim>\<open>string | number\<close>), \<^verbatim>\<open>queueClassLikeType\<close> returns
  normally and leaves the engine as it found it: nothing is queued, nothing is reported,
  and the branch that throws "unsupported union type" is not reached.
\<close>

theorem primitive_union_queues_nothing:
  assumes "\<forall>t \<in> set (nonNullableTypes env ts).
             \<exists>symb args. t = TypeRef symb args \<and> isTypescriptKeyword env symb"
  shows "queueClassLikeType env (UnionType ts) jsonrpcMethod r s = (None, s)"
proof -
  have "list_all (isKeywordTypeRef env) (nonNullableTypes env ts)"
    using assms by (auto simp: list_all_iff isKeywordTypeRef_def)
  then show ?thesis by simp
qed

text \<open>The union \<^verbatim>\<open>string | null | number\<close> in the example configuration.\<close>

theorem primitive_union_queues_nothing_witness:
  "nonNullableTypes example_env
      [TypeRef (kw ''string'') [], TypeRef (kw ''null'') [], TypeRef (kw ''number'') []]
     = [TypeRef (kw ''string'') [], TypeRef (kw ''number'') []]
   \<and> queueClassLikeType example_env
         (UnionType [TypeRef (kw ''string'') [], TypeRef (kw ''null'') [],
                     TypeRef (kw ''number'') []])
         example_method Parameter new_codegen = (None, new_codegen)"
proof
  show "nonNullableTypes example_env
          [TypeRef (kw ''string'') [], TypeRef (kw ''null'') [], TypeRef (kw ''number'') []]
        = [TypeRef (kw ''string'') [], TypeRef (kw ''number'') []]"
    by (simp add: example_defs engine_defs)
  show "queueClassLikeType example_env
          (UnionType [TypeRef (kw ''string'') [], TypeRef (kw ''null'') [],
                      TypeRef (kw ''number'') []])
          example_method Parameter new_codegen = (None, new_codegen)"
    by (rule primitive_union_queues_nothing) (simp add: example_defs engine_defs)
qed

subsection \<open>Unions that no rule resolves\<close>

text \<open>
  Claim C3, as stated, is false: a union of string constants such as \<^verbatim>\<open>'a' | 'b'\<close> has two
  non-nullable members, neither a keyword type reference, and no prefix of the table
  matches the method of the example, yet \<^verbatim>\<open>queueClassLikeType\<close> returns without an
  exception: the test for unions of constants comes first.
\<close>

theorem constant_union_is_not_an_error:
  "1 < length (nonNullableTypes example_env [ConstantType ''a'', ConstantType ''b''])
   \<and> \<not> list_all (isKeywordTypeRef example_env)
         (nonNullableTypes example_env [ConstantType ''a'', ConstantType ''b''])
   \<and> exceptionIndex (formatter (emitter example_env)) example_method = None
   \<and> queueClassLikeType example_env (UnionType [ConstantType ''a'', ConstantType ''b''])
        example_method Parameter new_codegen = (None, new_codegen)"
  by (simp add: example_defs engine_defs)

text \<open>
  Claim C3, amended. For a union type whose members are not all constant types, with
  more than one non-nullable member, not all of them type references to keyword symbols:
  if no prefix of the formatter's table of exceptions starts the owning method's symbol,
  \<^verbatim>\<open>queueClassLikeType\<close> throws "unsupported union type" and changes nothing; if the first
  matching entry gives an index, it records a warning and continues with the
  non-nullable member at that index, and when there is no member at that index the
  call fails, after the warning, on reading a property of \<^verbatim>\<open>undefined\<close>.
\<close>

theorem unsupported_union_resolution:
  assumes "\<not> list_all has_constant_type ts"
    and "1 < length (nonNullableTypes env ts)"
    and "\<not> list_all (isKeywordTypeRef env) (nonNullableTypes env ts)"
  shows "(exceptionIndex (formatter (emitter env)) jsonrpcMethod = None \<longrightarrow>
            queueClassLikeType env (UnionType ts) jsonrpcMethod r s
              = (Some (UnsupportedUnionType jsonrpcMethod), s))
       \<and> (\<forall>index. exceptionIndex (formatter (emitter env)) jsonrpcMethod = Some index \<longrightarrow>
            queueClassLikeType env (UnionType ts) jsonrpcMethod r s
              = (if index < length (nonNullableTypes env ts)
                 then queueClassLikeType env (nonNullableTypes env ts ! index) jsonrpcMethod r
                        (reporter_warn (symbol jsonrpcMethod)
                           (ResolvingUnsupportedUnion index jsonrpcMethod) s)
                 else (Some UndefinedAccess,
                       reporter_warn (symbol jsonrpcMethod)
                         (ResolvingUnsupportedUnion index jsonrpcMethod) s)))"
proof -
  obtain a b rest where nn: "nonNullableTypes env ts = a # b # rest"
    using assms(2) by (cases "nonNullableTypes env ts" rule: list.exhaust; simp; metis list.exhaust)
  show ?thesis using assms(1,3) nn by (auto simp: Let_def)
qed

text \<open>
  The union \<^verbatim>\<open>Foo | Bad\<close>: for the example method, which no prefix matches, the exception
  is thrown; for a method whose symbol starts with \<^verbatim>\<open>vscode/\<close> the table picks member 0,
  \<^verbatim>\<open>Foo\<close> is queued and a warning recorded; and with 2 for that prefix in the table, the
  warning is recorded and the call fails.
\<close>

theorem unsupported_union_resolution_witness:
  "queueClassLikeType example_env (UnionType [TypeRef ''Foo#'' [], TypeRef ''Bad#'' []])
     example_method Parameter new_codegen = (Some (UnsupportedUnionType example_method), new_codegen)
   \<and> queueClassLikeType example_env (UnionType [TypeRef ''Foo#'' [], TypeRef ''Bad#'' []])
       (example_method\<lparr>symbol := ''vscode/x.''\<rparr>) Parameter new_codegen
     = (None,
        new_codegen
          \<lparr>queue := [class_info ''Foo#'' ''Foo'' [''Foo#bar.'']],
           diagnostics :=
             [Diagnostic Warning ''vscode/x.''
                (ResolvingUnsupportedUnion 0 (example_method\<lparr>symbol := ''vscode/x.''\<rparr>)) []]\<rparr>)
   \<and> queueClassLikeType
       (example_env\<lparr>emitter := example_emitter
          \<lparr>formatter := example_formatter\<lparr>unionTypeExceptionIndex := [(''vscode/'', 2)]\<rparr>\<rparr>\<rparr>)
       (UnionType [TypeRef ''Foo#'' [], TypeRef ''Bad#'' []])
       (example_method\<lparr>symbol := ''vscode/x.''\<rparr>) Parameter new_codegen
     = (Some UndefinedAccess,
        new_codegen
          \<lparr>diagnostics :=
             [Diagnostic Warning ''vscode/x.''
                (ResolvingUnsupportedUnion 2 (example_method\<lparr>symbol := ''vscode/x.''\<rparr>)) []]\<rparr>)"
  using unsupported_union_resolution
      [of "[TypeRef ''Foo#'' [], TypeRef ''Bad#'' []]" example_env example_method
        Parameter new_codegen]
    unsupported_union_resolution
      [of "[TypeRef ''Foo#'' [], TypeRef ''Bad#'' []]" example_env
        "example_method\<lparr>symbol := ''vscode/x.''\<rparr>" Parameter new_codegen]
    unsupported_union_resolution
      [of "[TypeRef ''Foo#'' [], TypeRef ''Bad#'' []]"
        "example_env\<lparr>emitter := example_emitter
          \<lparr>formatter := example_formatter\<lparr>unionTypeExceptionIndex := [(''vscode/'', 2)]\<rparr>\<rparr>\<rparr>"
        "example_method\<lparr>symbol := ''vscode/x.''\<rparr>" Parameter new_codegen]
  by (simp add: example_defs engine_defs)

subsection \<open>Unions with one non-nullable member\<close>

text \<open>
  For a union type with exactly one non-nullable member, wherever that member stands in
  the union, \<^verbatim>\<open>queueClassLikeType\<close> does exactly what it does for the member alone (so
  nothing is queued for the union itself), provided that the member, if it is a type
  reference to a keyword symbol, is one the engine treats as a primitive: not the array
  symbol, not a record, and with a keyword syntax.
\<close>

theorem single_member_union:
  assumes "nonNullableTypes env ts = [t]"
    and "\<forall>symb args. t = TypeRef symb args \<longrightarrow> isTypescriptKeyword env symb \<longrightarrow>
           symb \<noteq> typescriptKeyword env ''array''
           \<and> \<not> isRecord (formatter (emitter env)) symb
           \<and> truthy (typescriptKeywordSyntax env symb)"
  shows "queueClassLikeType env (UnionType ts) jsonrpcMethod r s
           = queueClassLikeType env t jsonrpcMethod r s"
proof (cases "list_all has_constant_type ts")
  case True
  have "t \<in> set ts" using assms(1) unfolding nonNullableTypes_def
    by (metis filter_is_subset list.set_intros(1) subsetD)
  then have "has_constant_type t" using True by (simp add: list_all_iff)
  then obtain c where "t = ConstantType c" by (cases t) auto
  then show ?thesis using True by simp
next
  case False
  show ?thesis
  proof (cases "isKeywordTypeRef env t")
    case True
    then obtain symb args where "t = TypeRef symb args" and "isTypescriptKeyword env symb"
      by (cases t) (auto simp: isKeywordTypeRef_def)
    then show ?thesis using assms False True by simp
  next
    case other: False
    then show ?thesis using assms(1) False by simp
  qed
qed

text \<open>\<^verbatim>\<open>null | Foo\<close> and \<^verbatim>\<open>Foo | null\<close> both queue \<^verbatim>\<open>Foo\<close>, as \<^verbatim>\<open>Foo\<close> alone does.\<close>

theorem single_member_union_witness:
  "queueClassLikeType example_env (UnionType [TypeRef (kw ''null'') [], TypeRef ''Foo#'' []])
     example_method Parameter new_codegen
     = queueClassLikeType example_env (TypeRef ''Foo#'' []) example_method Parameter new_codegen
   \<and> queueClassLikeType example_env (UnionType [TypeRef ''Foo#'' [], TypeRef (kw ''null'') []])
       example_method Parameter new_codegen
     = queueClassLikeType example_env (TypeRef ''Foo#'' []) example_method Parameter new_codegen
   \<and> queue (snd (queueClassLikeType example_env (TypeRef ''Foo#'' [])
        example_method Parameter new_codegen)) = [class_info ''Foo#'' ''Foo'' [''Foo#bar.'']]"
proof -
  have a: "nonNullableTypes example_env [TypeRef (kw ''null'') [], TypeRef ''Foo#'' []]
             = [TypeRef ''Foo#'' []]"
    and b: "nonNullableTypes example_env [TypeRef ''Foo#'' [], TypeRef (kw ''null'') []]
             = [TypeRef ''Foo#'' []]"
    and k: "\<forall>symb args. TypeRef ''Foo#'' [] = TypeRef symb args \<longrightarrow>
              isTypescriptKeyword example_env symb \<longrightarrow>
              symb \<noteq> typescriptKeyword example_env ''array''
              \<and> \<not> isRecord (formatter (emitter example_env)) symb
              \<and> truthy (typescriptKeywordSyntax example_env symb)"
    by (simp_all add: example_defs engine_defs)
  show ?thesis
    using single_member_union [OF a k, of example_method Parameter new_codegen]
      single_member_union [OF b k, of example_method Parameter new_codegen]
    by (simp add: example_defs engine_defs)
qed

text \<open>
  The case left out. When the array symbol, \<^verbatim>\<open>typescriptKeyword('array')\<close>, passes
  \<^verbatim>\<open>isTypescriptKeyword\<close>, a union whose one non-nullable member is an array is taken for
  a union of keywords, whatever the type of the elements: nothing is queued and nothing
  reported, while for the array alone the call goes on to the type of the elements.
\<close>

lemma array_union_is_taken_for_keywords:
  assumes "isTypescriptKeyword env (typescriptKeyword env ''array'')"
    and "nonNullableTypes env ts = [TypeRef (typescriptKeyword env ''array'') (a # args)]"
  shows "queueClassLikeType env (UnionType ts) jsonrpcMethod r s = (None, s)"
    and "queueClassLikeType env (TypeRef (typescriptKeyword env ''array'') (a # args))
           jsonrpcMethod r s
         = queueClassLikeType env a jsonrpcMethod r s"
  using assms by (simp_all add: isKeywordTypeRef_def)

text \<open>
  Claim C7 does not hold of the code. In \<^verbatim>\<open>Foo[] | null\<close> the one non-nullable member is
  \<^verbatim>\<open>Foo[]\<close>, a type reference to the array symbol, which is a keyword symbol; the test for
  unions of keywords (lines 476 to 483) comes before the case of a single member (lines
  484 to 488), so nothing is queued for the union, while for \<^verbatim>\<open>Foo[]\<close> alone the branch for
  type references (lines 428 and 429) queues \<^verbatim>\<open>Foo\<close>.
\<close>

theorem nullable_array_union_queues_nothing:
  "isTypescriptKeyword example_env (typescriptKeyword example_env ''array'')
   \<and> nonNullableTypes example_env
      [TypeRef (kw ''array'') [TypeRef ''Foo#'' []], TypeRef (kw ''null'') []]
     = [TypeRef (kw ''array'') [TypeRef ''Foo#'' []]]
   \<and> queueClassLikeType example_env
        (UnionType [TypeRef (kw ''array'') [TypeRef ''Foo#'' []], TypeRef (kw ''null'') []])
        example_method Parameter new_codegen = (None, new_codegen)
   \<and> queueClassLikeType example_env (TypeRef (kw ''array'') [TypeRef ''Foo#'' []])
        example_method Parameter new_codegen
     = (None, new_codegen\<lparr>queue := [class_info ''Foo#'' ''Foo'' [''Foo#bar.'']]\<rparr>)"
  by (simp add: example_defs engine_defs)

subsection \<open>Synthesized types\<close>

text \<open>
  Claim C6. For a structural or intersection type, \<^verbatim>\<open>queueClassLikeType\<close> queues a symbol
  information whose symbol is the owning method's symbol followed by \<^verbatim>\<open>(parameter).\<close> or
  \<^verbatim>\<open>(result).\<close>, whose display name is a function of the owning method's symbol and the
  role alone, and whose class signature lists the properties of the type. Nothing of
  the engine's state enters the synthesized value, so a second generation over the same
  graph synthesizes the same symbols and names. (When \<^verbatim>\<open>properties\<close> throws, nothing is
  queued.)
\<close>

theorem synthesized_type:
  assumes "has_structural_type t \<or> has_intersection_type t"
    and "properties env t = Some ps"
  shows "queueClassLikeType env t jsonrpcMethod r s =
           (None,
            queue_push
              \<lparr>symbol = symbol jsonrpcMethod @ ''('' @ role_text r @ '').'',
               display_name =
                 synthesizedTypeName (formatter (emitter env)) (symbol jsonrpcMethod) r,
               kind = UnspecifiedKind,
               signature = Some (ClassSignature ps)\<rparr> s)"
  using assms by (cases t) (simp_all add: queueClassLikeInfo_def jsonrpcTypeName_def)

theorem synthesized_type_witness:
  "queueClassLikeType example_env (StructuralType [''Ok#kind.'', ''Ok#value.''])
     example_method Result new_codegen =
     (None,
      queue_push
        \<lparr>symbol = ''Api#method.(result).'', display_name = ''Api#method.Result'',
         kind = UnspecifiedKind,
         signature = Some (ClassSignature [''Ok#kind.'', ''Ok#value.''])\<rparr> new_codegen)"
  using synthesized_type [of "StructuralType [''Ok#kind.'', ''Ok#value.'']" example_env
      "[''Ok#kind.'', ''Ok#value.'']" example_method Result new_codegen]
  by (simp add: example_defs)

subsection \<open>Symbol informations without a signature\<close>

text \<open>None of the lookups made while classifying a symbol throws "unknown info".\<close>

lemma unionTypes_loop_not_unknown:
  "unionTypes_loop env depth t acc = Inl e \<Longrightarrow> \<not> isUnknownInfo e"
  "unionTypes_members env depth ts acc = Inl e \<Longrightarrow> \<not> isUnknownInfo e"
  by (induction env depth t acc and env depth ts acc
      rule: unionTypes_loop_unionTypes_members.induct)
    (auto split: tpe.splits option.splits signature.splits sum.splits)

lemma du_properties_loop_not_unknown:
  "du_properties_loop env u ps tally = Inl e \<Longrightarrow> \<not> isUnknownInfo e"
  by (induction ps arbitrary: tally)
    (auto simp: Let_def split: option.splits signature.splits if_splits)

lemma du_unionTypes_loop_not_unknown:
  "du_unionTypes_loop env us tally = Inl e \<Longrightarrow> \<not> isUnknownInfo e"
  by (induction us arbitrary: tally)
    (auto split: option.splits sum.splits dest: du_properties_loop_not_unknown)

lemma discriminatedUnion_not_unknown:
  "discriminatedUnion env sinfo = Inl e \<Longrightarrow> \<not> isUnknownInfo e"
  using unionTypes_loop_not_unknown(1) [of env "stackLimit env" _ "[]" e]
  by (auto simp: discriminatedUnion_def unionTypes_def
      split: option.splits signature.splits tpe.splits if_splits sum.splits prod.splits
      dest: du_unionTypes_loop_not_unknown)

lemma declarations_loop_not_unknown:
  "declarations_loop env ps ds = Inl e \<Longrightarrow> \<not> isUnknownInfo e"
  by (induction ps arbitrary: ds) (auto split: option.splits if_splits)

text \<open>
  Claim C10, as stated, is false in its second part: the alias \<^verbatim>\<open>X = { m(): void } | Foo\<close>
  has a type signature, one of the shapes \<^verbatim>\<open>queueClassLikeInfo\<close> knows, and yet the call
  throws a \<^verbatim>\<open>TypeError\<close>: \<^verbatim>\<open>discriminatedUnion\<close> reads \<^verbatim>\<open>.value_signature.tpe\<close> of the
  member \<^verbatim>\<open>m\<close>, which has no value signature.
\<close>

theorem type_alias_throws_another_type_error:
  "signature (alias_info ''X#'' ''X'' (UnionType [StructuralType [''Bad#m.''], TypeRef ''Foo#'' []]))
     = Some (TypeSignature (UnionType [StructuralType [''Bad#m.''], TypeRef ''Foo#'' []]))
   \<and> queueClassLikeInfo example_env
       (alias_info ''X#'' ''X'' (UnionType [StructuralType [''Bad#m.''], TypeRef ''Foo#'' []]))
       new_codegen
     = (Some UndefinedAccess, new_codegen)"
  by (simp add: example_defs engine_defs discriminatedUnion_def unionTypes_def)

text \<open>
  Claim C10, amended. For a symbol information without a signature, \<^verbatim>\<open>queueClassLikeInfo\<close>
  returns normally and changes nothing: nothing queued, nothing reported. It throws its
  own type error, "unknown info", exactly when the signature is present and is none of
  the shapes it knows: not a class signature, not a string type, and not a type
  signature (a discriminated union has a type signature); the state is then unchanged
  too. Every other exception that comes out of \<^verbatim>\<open>queueClassLikeInfo\<close> is thrown while a
  type signature that is not a string type is analysed.
\<close>

theorem unknown_info_only_for_unrecognized_signature:
  "(signature sinfo = None \<longrightarrow> queueClassLikeInfo env sinfo s = (None, s))
   \<and> ((\<exists>e. fst (queueClassLikeInfo env sinfo s) = Some e \<and> isUnknownInfo e)
        \<longleftrightarrow> (\<exists>sg. signature sinfo = Some sg \<and> (\<forall>ms. sg \<noteq> ClassSignature ms)
               \<and> \<not> isStringTypeInfo env sinfo \<and> (\<forall>t. sg \<noteq> TypeSignature t)))
   \<and> ((\<exists>e. fst (queueClassLikeInfo env sinfo s) = Some e \<and> isUnknownInfo e)
        \<longrightarrow> queueClassLikeInfo env sinfo s = (Some (UnknownInfo sinfo), s))
   \<and> (\<forall>e. fst (queueClassLikeInfo env sinfo s) = Some e \<and> \<not> isUnknownInfo e
        \<longrightarrow> (\<exists>t. signature sinfo = Some (TypeSignature t)) \<and> \<not> isStringTypeInfo env sinfo)"
proof (cases "signature sinfo")
  case None
  then show ?thesis by (simp add: queueClassLikeInfo_def)
next
  case (Some sg)
  show ?thesis
  proof (cases sg)
    case (ClassSignature ms)
    then show ?thesis using Some by (simp add: queueClassLikeInfo_def)
  next
    case (TypeSignature t)
    then show ?thesis using Some
      by (auto simp: queueClassLikeInfo_def
          split: sum.splits option.splits if_splits
          dest: discriminatedUnion_not_unknown declarations_loop_not_unknown)
  next
    case (ValueSignature t)
    have "discriminatedUnion env sinfo = Inr None"
      using Some ValueSignature by (simp add: discriminatedUnion_def)
    then show ?thesis using Some ValueSignature
      by (auto simp: queueClassLikeInfo_def)
  next
    case OtherSignature
    have "discriminatedUnion env sinfo = Inr None"
      using Some OtherSignature by (simp add: discriminatedUnion_def)
    then show ?thesis using Some OtherSignature
      by (auto simp: queueClassLikeInfo_def)
  qed
qed

text \<open>
  A symbol information without a signature is passed over; the member of \<^verbatim>\<open>Bad\<close>, whose
  signature is of no known shape, is rejected.
\<close>

theorem unknown_info_only_for_unrecognized_signature_witness:
  "queueClassLikeInfo example_env
     \<lparr>symbol = ''Nothing#'', display_name = ''Nothing'', kind = UnspecifiedKind,
      signature = None\<rparr> new_codegen = (None, new_codegen)
   \<and> queueClassLikeInfo example_env
       \<lparr>symbol = ''Bad#m.'', display_name = ''m'', kind = UnspecifiedKind,
        signature = Some OtherSignature\<rparr> new_codegen
     = (Some (UnknownInfo \<lparr>symbol = ''Bad#m.'', display_name = ''m'', kind = UnspecifiedKind,
                           signature = Some OtherSignature\<rparr>), new_codegen)"
  using unknown_info_only_for_unrecognized_signature
      [of "\<lparr>symbol = ''Nothing#'', display_name = ''Nothing'', kind = UnspecifiedKind,
            signature = None\<rparr>" example_env new_codegen]
    unknown_info_only_for_unrecognized_signature
      [of "\<lparr>symbol = ''Bad#m.'', display_name = ''m'', kind = UnspecifiedKind,
            signature = Some OtherSignature\<rparr>" example_env new_codegen]
  by (simp add: example_defs)

subsection \<open>Members with the same display name\<close>

text \<open>
  Claim C9, as stated, is false: \<^verbatim>\<open>Dup2\<close> lists two members named \<^verbatim>\<open>x\<close>; the first is on
  the ignore list, so it does not reserve the name, and the field emitted is the one of
  the second.
\<close>

theorem ignored_first_member_does_not_reserve_name:
  "infoProperties example_env (class_info ''Dup2#'' ''Dup2'' [''A#internal_x.'', ''B#x.''])
     = Some [''A#internal_x.'', ''B#x.'']
   \<and> map_option display_name (info (symtab example_env) ''A#internal_x.'') = Some ''x''
   \<and> map_option display_name (info (symtab example_env) ''B#x.'') = Some ''x''
   \<and> writeDataClassUnsafe example_env [] ''Dup2''
         (class_info ''Dup2#'' ''Dup2'' [''A#internal_x.'', ''B#x.''])
         \<lparr>innerClass = None, parentClass = None\<rparr> new_codegen
       = (None,
          [EmitDataClass
             \<lparr>innerClass = None, parentClass = None, dc_name = ''Dup2'',
              dc_info = class_info ''Dup2#'' ''Dup2'' [''A#internal_x.'', ''B#x.''],
              dc_members =
                [\<lparr>member_info = snd (property_entry ''B#x.'' ''x'' (TypeRef (kw ''number'') [])),
                  member_typeSyntax = ''Any'', member_formattedName = ''x'',
                  oneOfComment = [], member_isNullable = False\<rparr>],
              dc_enums = []\<rparr>],
          new_codegen)"
  by (simp add: example_defs engine_defs data_class_defs)

lemma member_skip:
  assumes "info (symtab env) y = Some my" and "display_name my \<in> fst acc"
  shows "writeDataClass_member env y acc s = (Inr acc, s)"
  using assms by (simp add: writeDataClass_member_def Let_def)

lemma member_grows:
  assumes "writeDataClass_member env z acc s = (Inr acc', s')"
  shows "fst acc \<subseteq> fst acc'"
  using assms
  by (auto simp: writeDataClass_member_def Let_def
      split: if_splits option.splits signature.splits prod.splits)

lemma member_registers:
  assumes "writeDataClass_member env x acc s = (Inr acc', s')"
    and "\<not> isIgnoredProperty (formatter (emitter env)) x" and "\<not> endsWith x ''().''"
    and "info (symtab env) x = Some mx"
  shows "display_name mx \<in> fst acc'"
  using assms
  by (auto simp: writeDataClass_member_def Let_def
      split: if_splits option.splits signature.splits prod.splits)

lemma members_grow:
  "writeDataClass_members env zs acc s = (Inr acc', s') \<Longrightarrow> fst acc \<subseteq> fst acc'"
proof (induction zs arbitrary: acc s)
  case Nil
  then show ?case by simp
next
  case (Cons z zs)
  obtain r s1 where step: "writeDataClass_member env z acc s = (r, s1)"
    by (cases "writeDataClass_member env z acc s") auto
  with Cons.prems obtain acc1 where r: "r = Inr acc1"
    and rest: "writeDataClass_members env zs acc1 s1 = (Inr acc', s')"
    by (cases r) auto
  have "fst acc \<subseteq> fst acc1" using member_grows step r by blast
  moreover have "fst acc1 \<subseteq> fst acc'" using Cons.IH rest by blast
  ultimately show ?case by blast
qed

lemma members_append:
  "writeDataClass_members env (xs @ ys) acc s =
     (case writeDataClass_members env xs acc s of
        (Inl e, s1) \<Rightarrow> (Inl e, s1)
      | (Inr acc1, s1) \<Rightarrow> writeDataClass_members env ys acc1 s1)"
  by (induction xs arbitrary: acc s) (auto split: prod.splits sum.splits)

lemma members_skip_later:
  assumes "info (symtab env) y = Some my" and "display_name my \<in> fst acc"
  shows "writeDataClass_members env (mid @ y # post) acc s
           = writeDataClass_members env (mid @ post) acc s"
proof -
  have "writeDataClass_members env (y # post) acc1 s1 = writeDataClass_members env post acc1 s1"
    if "writeDataClass_members env mid acc s = (Inr acc1, s1)" for acc1 s1
  proof -
    have "display_name my \<in> fst acc1" using members_grow [OF that] assms(2) by auto
    then show ?thesis using member_skip [OF assms(1)] by simp
  qed
  then show ?thesis
    by (auto simp: members_append split: prod.splits sum.splits)
qed

lemma member_keeps_names_distinct:
  assumes "writeDataClass_member env z acc s = (Inr acc', s')"
    and "distinct (map (display_name \<circ> member_info) (snd (snd acc)))"
    and "\<forall>m \<in> set (snd (snd acc)). display_name (member_info m) \<in> fst acc"
  shows "distinct (map (display_name \<circ> member_info) (snd (snd acc')))
         \<and> (\<forall>m \<in> set (snd (snd acc')). display_name (member_info m) \<in> fst acc')"
  using assms
  by (auto simp: writeDataClass_member_def Let_def
      split: if_splits option.splits signature.splits prod.splits)

lemma members_keep_names_distinct:
  "writeDataClass_members env zs acc s = (Inr acc', s') \<Longrightarrow>
   distinct (map (display_name \<circ> member_info) (snd (snd acc))) \<Longrightarrow>
   \<forall>m \<in> set (snd (snd acc)). display_name (member_info m) \<in> fst acc \<Longrightarrow>
   distinct (map (display_name \<circ> member_info) (snd (snd acc')))"
proof (induction zs arbitrary: acc s)
  case Nil
  then show ?case by simp
next
  case (Cons z zs)
  obtain r s1 where step: "writeDataClass_member env z acc s = (r, s1)"
    by (cases "writeDataClass_member env z acc s") auto
  with Cons.prems(1) obtain acc1 where r: "r = Inr acc1"
    and rest: "writeDataClass_members env zs acc1 s1 = (Inr acc', s')"
    by (cases r) auto
  show ?case
    using Cons.IH [OF rest] member_keeps_names_distinct [OF step [unfolded r] Cons.prems(2,3)]
    by blast
qed

text \<open>
  Claim C9, amended. In the loop of \<^verbatim>\<open>writeDataClassUnsafe\<close> over the member symbols, once
  a member that is neither on the ignore list nor method-shaped has been looked up, a
  later member symbol with the same display name has no effect at all: the loop ends
  with the same fields, the same enums and the same state of the engine (so no
  diagnostic, of any severity) as for the list without it. And in the data class that
  \<^verbatim>\<open>writeDataClassUnsafe\<close> emits no two fields belong to members of the same display name.
\<close>

theorem later_member_of_same_name_is_skipped:
  "(\<not> isIgnoredProperty (formatter (emitter env)) x \<and> \<not> endsWith x ''().''
      \<and> info (symtab env) x = Some mx
      \<and> info (symtab env) y = Some my \<and> display_name my = display_name mx
    \<longrightarrow> writeDataClass_members env (pre @ x # mid @ y # post) acc s
          = writeDataClass_members env (pre @ x # mid @ post) acc s)
   \<and> (writeDataClassUnsafe env p n sinfo params s = (None, p', s')
    \<longrightarrow> (\<exists>dc. p' = p @ [EmitDataClass dc]
              \<and> distinct (map (display_name \<circ> member_info) (dc_members dc))))"
proof (intro conjI impI)
  assume a: "\<not> isIgnoredProperty (formatter (emitter env)) x \<and> \<not> endsWith x ''().''
      \<and> info (symtab env) x = Some mx
      \<and> info (symtab env) y = Some my \<and> display_name my = display_name mx"
  have "writeDataClass_members env (mid @ y # post) acc2 s2
          = writeDataClass_members env (mid @ post) acc2 s2"
    if "writeDataClass_member env x acc1 s1 = (Inr acc2, s2)" for acc1 s1 acc2 s2
    using members_skip_later [of env y my acc2 mid post s2] member_registers [OF that, of mx] a
    by simp
  then show "writeDataClass_members env (pre @ x # mid @ y # post) acc s
          = writeDataClass_members env (pre @ x # mid @ post) acc s"
    by (auto simp: members_append split: prod.splits sum.splits)
next
  assume "writeDataClassUnsafe env p n sinfo params s = (None, p', s')"
  then show "\<exists>dc. p' = p @ [EmitDataClass dc]
              \<and> distinct (map (display_name \<circ> member_info) (dc_members dc))"
    by (auto simp: writeDataClassUnsafe_def Let_def
        split: option.splits prod.splits sum.splits
        dest!: members_keep_names_distinct)
qed

text \<open>\<^verbatim>\<open>Dup\<close> lists two members named \<^verbatim>\<open>x\<close>; the field emitted is the one of the first.\<close>

theorem later_member_of_same_name_is_skipped_witness:
  "writeDataClass_members example_env [''A#x.'', ''B#x.''] ({}, [], []) new_codegen
     = writeDataClass_members example_env [''A#x.''] ({}, [], []) new_codegen
   \<and> writeDataClassUnsafe example_env [] ''Dup''
         (class_info ''Dup#'' ''Dup'' [''A#x.'', ''B#x.''])
         \<lparr>innerClass = None, parentClass = None\<rparr> new_codegen
       = (None,
          [EmitDataClass
             \<lparr>innerClass = None, parentClass = None, dc_name = ''Dup'',
              dc_info = class_info ''Dup#'' ''Dup'' [''A#x.'', ''B#x.''],
              dc_members =
                [\<lparr>member_info = snd (property_entry ''A#x.'' ''x'' (TypeRef (kw ''string'') [])),
                  member_typeSyntax = ''Any'', member_formattedName = ''x'',
                  oneOfComment = [], member_isNullable = False\<rparr>],
              dc_enums = []\<rparr>],
          new_codegen)"
  using later_member_of_same_name_is_skipped [of example_env "''A#x.''" "snd (property_entry ''A#x.'' ''x'' (TypeRef (kw ''string'') []))"
      "''B#x.''" "snd (property_entry ''B#x.'' ''x'' (TypeRef (kw ''number'') []))"
      "[]" "[]" "[]" "({}, [], [])" new_codegen]
  by (simp add: example_defs engine_defs data_class_defs)

subsection \<open>Sealed classes\<close>

lemma dataClasses_append: "dataClasses (p @ q) = dataClasses p @ dataClasses q"
  by (induction p rule: dataClasses.induct) auto













subsection \<open>A data class that cannot be written\<close>

text \<open>
  Claim C2, as stated, is false in its last part: writing the data class of \<^verbatim>\<open>Bad\<close>
  throws, since its member has no value signature, and yet \<^verbatim>\<open>writeType\<close> writes the file
  of \<^verbatim>\<open>Bad\<close>.
\<close>

theorem failed_data_class_file_is_written:
  "fst (writeDataClassUnsafe example_env
          [StartType ''Bad'' (class_info ''Bad#'' ''Bad'' [''Bad#m.''])] ''Bad''
          (class_info ''Bad#'' ''Bad'' [''Bad#m.''])
          \<lparr>innerClass = None, parentClass = None\<rparr> new_codegen)
     = Some (NotAValueSignature
         \<lparr>symbol = ''Bad#m.'', display_name = ''m'', kind = UnspecifiedKind,
          signature = Some OtherSignature\<rparr>)
   \<and> files (snd (writeType example_env (class_info ''Bad#'' ''Bad'' [''Bad#m.''])
         new_codegen example_host))
     = [(''out/Bad.kt'',
         [StartType ''Bad'' (class_info ''Bad#'' ''Bad'' [''Bad#m.'']),
          CloseType ''Bad'' (class_info ''Bad#'' ''Bad'' [''Bad#m.''])])]"
  by (simp add: example_defs engine_defs data_class_defs writeType_def aliasType_def
      writeDataClass_def writeFile_def reject_def)

lemma writeDataClassUnsafe_failure_keeps_document:
  "writeDataClassUnsafe env p n sinfo params s = (Some e, p1, s1) \<Longrightarrow> p1 = p"
  by (auto simp: writeDataClassUnsafe_def Let_def split: option.splits prod.splits sum.splits)

text \<open>
  Claim C2, amended. When writing the data class of a type throws, \<^verbatim>\<open>writeDataClass\<close>
  catches the exception and returns; its \<^verbatim>\<open>catch\<close> block reports one error against the
  type's symbol. For a type that is neither an alias, nor ignored, nor a discriminated
  union, \<^verbatim>\<open>writeType\<close> then still writes the type's file, holding the opening and the
  closing of the type and no data class, and the loop of \<^verbatim>\<open>run\<close> marks the symbol as
  generated and goes on with the rest of the queue.
\<close>

theorem failed_data_class_is_reported:
  assumes "writeDataClassUnsafe env [StartType (typeName (formatter (emitter env)) sinfo) sinfo]
             (typeName (formatter (emitter env)) sinfo) sinfo
             \<lparr>innerClass = None, parentClass = None\<rparr> s = (Some e, p1, s1)"
    and "display_name sinfo \<noteq> ''Date''" and "\<not> isStringTypeInfo env sinfo"
    and "\<not> isIgnoredInfo (formatter (emitter env)) sinfo"
    and "map_of (discriminatedUnions s) (symbol sinfo) = None"
  shows "writeDataClass env [StartType (typeName (formatter (emitter env)) sinfo) sinfo]
             (typeName (formatter (emitter env)) sinfo) sinfo
             \<lparr>innerClass = None, parentClass = None\<rparr> s
           = ([StartType (typeName (formatter (emitter env)) sinfo) sinfo], s1,
              [Diagnostic Error (symbol sinfo) (FailedToHandleClass (symbol sinfo) e) []])
     \<and> writeType env sinfo s io
           = (reporter_error (symbol sinfo) (FailedToHandleClass (symbol sinfo) e) s1,
              writeFile
                (path_join env (outputPath env)
                   (getFileNameForType (emitter env) (display_name sinfo)))
                [StartType (typeName (formatter (emitter env)) sinfo) sinfo,
                 CloseType (typeName (formatter (emitter env)) sinfo) sinfo] io)
     \<and> (\<forall>s0 k. queue_pop s0 = Some (sinfo, s) \<longrightarrow> symbol sinfo \<notin> generatedSymbols s \<longrightarrow>
           drain env (Suc k) s0 io
             = drain env k
                 ((reporter_error (symbol sinfo) (FailedToHandleClass (symbol sinfo) e) s1)
                    \<lparr>generatedSymbols := insert (symbol sinfo) (generatedSymbols s1)\<rparr>)
                 (writeFile
                    (path_join env (outputPath env)
                       (getFileNameForType (emitter env) (display_name sinfo)))
                    [StartType (typeName (formatter (emitter env)) sinfo) sinfo,
                     CloseType (typeName (formatter (emitter env)) sinfo) sinfo] io))"
proof -
  have p1: "p1 = [StartType (typeName (formatter (emitter env)) sinfo) sinfo]"
    using writeDataClassUnsafe_failure_keeps_document [OF assms(1)] .
  have w: "writeDataClass env [StartType (typeName (formatter (emitter env)) sinfo) sinfo]
             (typeName (formatter (emitter env)) sinfo) sinfo
             \<lparr>innerClass = None, parentClass = None\<rparr> s
           = ([StartType (typeName (formatter (emitter env)) sinfo) sinfo], s1,
              [Diagnostic Error (symbol sinfo) (FailedToHandleClass (symbol sinfo) e) []])"
    using assms(1) p1 by (simp add: writeDataClass_def)
  have t: "writeType env sinfo s io
           = (reporter_error (symbol sinfo) (FailedToHandleClass (symbol sinfo) e) s1,
              writeFile
                (path_join env (outputPath env)
                   (getFileNameForType (emitter env) (display_name sinfo)))
                [StartType (typeName (formatter (emitter env)) sinfo) sinfo,
                 CloseType (typeName (formatter (emitter env)) sinfo) sinfo] io)"
    using assms(2-5) w
    by (simp add: writeType_def aliasType_def truthy_def Let_def reject_def reporter_error_def)
  show ?thesis using w t
    by (auto simp: reporter_error_def reporter_report_def)
qed

text \<open>
  \<^verbatim>\<open>Bad\<close> again: the error is reported against \<^verbatim>\<open>Bad#\<close>, the file is written, and with
  \<^verbatim>\<open>Foo\<close> queued before \<^verbatim>\<open>Bad\<close> the loop goes on to write \<^verbatim>\<open>Foo\<close>.
\<close>

theorem failed_data_class_is_reported_witness:
  "writeType example_env (class_info ''Bad#'' ''Bad'' [''Bad#m.'']) new_codegen example_host
     = (new_codegen\<lparr>diagnostics :=
          [Diagnostic Error ''Bad#''
             (FailedToHandleClass ''Bad#''
                (NotAValueSignature
                   \<lparr>symbol = ''Bad#m.'', display_name = ''m'', kind = UnspecifiedKind,
                    signature = Some OtherSignature\<rparr>)) []]\<rparr>,
        example_host\<lparr>files :=
          [(''out/Bad.kt'',
            [StartType ''Bad'' (class_info ''Bad#'' ''Bad'' [''Bad#m.'']),
             CloseType ''Bad'' (class_info ''Bad#'' ''Bad'' [''Bad#m.''])])]\<rparr>)
   \<and> map fst (files (snd (snd (drain example_env (Suc (Suc 0))
         (new_codegen\<lparr>queue := [class_info ''Foo#'' ''Foo'' [''Foo#bar.''],
                                  class_info ''Bad#'' ''Bad'' [''Bad#m.'']]\<rparr>)
         example_host))))
     = [''out/Bad.kt'', ''out/Foo.kt'']"
proof -
  have u: "writeDataClassUnsafe example_env
      [StartType (typeName (formatter (emitter example_env))
                   (class_info ''Bad#'' ''Bad'' [''Bad#m.'']))
         (class_info ''Bad#'' ''Bad'' [''Bad#m.''])]
      (typeName (formatter (emitter example_env)) (class_info ''Bad#'' ''Bad'' [''Bad#m.'']))
      (class_info ''Bad#'' ''Bad'' [''Bad#m.''])
      \<lparr>innerClass = None, parentClass = None\<rparr> new_codegen
    = (Some (NotAValueSignature
         \<lparr>symbol = ''Bad#m.'', display_name = ''m'', kind = UnspecifiedKind,
          signature = Some OtherSignature\<rparr>),
       [StartType ''Bad'' (class_info ''Bad#'' ''Bad'' [''Bad#m.''])], new_codegen)"
    by (simp add: example_defs engine_defs data_class_defs)
  have pop: "queue_pop (new_codegen\<lparr>queue := [class_info ''Foo#'' ''Foo'' [''Foo#bar.''],
                                  class_info ''Bad#'' ''Bad'' [''Bad#m.'']]\<rparr>)
     = Some (class_info ''Bad#'' ''Bad'' [''Bad#m.''],
             new_codegen\<lparr>queue := [class_info ''Foo#'' ''Foo'' [''Foo#bar.'']]\<rparr>)"
    by (simp add: queue_pop_def new_codegen_def)
  have u': "writeDataClassUnsafe example_env
      [StartType (typeName (formatter (emitter example_env))
                   (class_info ''Bad#'' ''Bad'' [''Bad#m.'']))
         (class_info ''Bad#'' ''Bad'' [''Bad#m.''])]
      (typeName (formatter (emitter example_env)) (class_info ''Bad#'' ''Bad'' [''Bad#m.'']))
      (class_info ''Bad#'' ''Bad'' [''Bad#m.''])
      \<lparr>innerClass = None, parentClass = None\<rparr>
      (new_codegen\<lparr>queue := [class_info ''Foo#'' ''Foo'' [''Foo#bar.'']]\<rparr>)
    = (Some (NotAValueSignature
         \<lparr>symbol = ''Bad#m.'', display_name = ''m'', kind = UnspecifiedKind,
          signature = Some OtherSignature\<rparr>),
       [StartType ''Bad'' (class_info ''Bad#'' ''Bad'' [''Bad#m.''])],
       new_codegen\<lparr>queue := [class_info ''Foo#'' ''Foo'' [''Foo#bar.'']]\<rparr>)"
    by (simp add: example_defs engine_defs data_class_defs)
  show ?thesis
    using failed_data_class_is_reported [OF u, of example_host]
      failed_data_class_is_reported [OF u', of example_host] pop
    by (simp add: example_defs engine_defs data_class_defs writeType_def aliasType_def
        writeDataClass_def writeFile_def reject_def queue_pop_def)
qed

subsection \<open>Every symbol is written once\<close>

lemma typesWritten_append: "typesWritten (p @ q) = typesWritten p @ typesWritten q"
  by (induction p rule: typesWritten.induct) auto

lemma declarations_report_generated:
  "generatedSymbols (declarations_report ds s) = generatedSymbols s"
  by (induction ds arbitrary: s) (auto simp: Let_def reporter_report_def)

lemma queueClassLikeInfo_generated:
  "queueClassLikeInfo env sinfo s = (e, s') \<Longrightarrow> generatedSymbols s' = generatedSymbols s"
  by (auto simp: queueClassLikeInfo_def queue_push_def reporter_warn_def reporter_report_def
      declarations_report_generated
      split: option.splits signature.splits sum.splits if_splits)

lemma queueClassLikeType_generated:
  "queueClassLikeType env t jsonrpcMethod r s = (e, s') \<Longrightarrow>
   generatedSymbols s' = generatedSymbols s"
proof (induction env t jsonrpcMethod r s arbitrary: e s' rule: queueClassLikeType.induct)
  case (1 env symb args jsonrpcMethod r s)
  show ?case
  proof (cases "symb = typescriptKeyword env ''array''")
    case True
    then show ?thesis using "1.IH"(1) "1.prems" by (cases args) auto
  next
    case False
    show ?thesis
    proof (cases "isRecord (formatter (emitter env)) symb")
      case isRec: True
      show ?thesis
      proof (cases "\<exists>a b. args = [a, b]")
        case True
        then obtain a b where args: "args = [a, b]" by blast
        obtain e1 s1 where q: "queueClassLikeType env a jsonrpcMethod r s = (e1, s1)"
          by (cases "queueClassLikeType env a jsonrpcMethod r s") auto
        have g1: "generatedSymbols s1 = generatedSymbols s"
          using "1.IH"(2) [OF False isRec args refl refl q] .
        show ?thesis
        proof (cases e1)
          case None
          have q2: "queueClassLikeType env b jsonrpcMethod r s1 = (e, s')"
            using "1.prems" False isRec args q None by simp
          have "generatedSymbols s' = generatedSymbols s1"
            using "1.IH"(3) [OF False isRec args refl refl q [symmetric, unfolded None] refl q2] .
          then show ?thesis using g1 by simp
        next
          case (Some err)
          then show ?thesis using "1.prems" False isRec args q g1 by simp
        qed
      next
        case False
        then have "queueClassLikeType env (TypeRef symb args) jsonrpcMethod r s
            = (Some (RecordTypeArguments (TypeRef symb args)), s)"
          using \<open>symb \<noteq> typescriptKeyword env ''array''\<close> isRec
          by (auto split: list.splits)
        then show ?thesis using "1.prems" by simp
      qed
    next
      case notRec: False
      then show ?thesis using "1.prems" False
        by (auto split: if_splits option.splits dest: queueClassLikeInfo_generated)
    qed
  qed
next
  case (2 env ts jsonrpcMethod r s)
  let ?nn = "nonNullableTypes env ts"
  show ?case
  proof (cases "list_all has_constant_type ts \<or> list_all (isKeywordTypeRef env) ?nn")
    case True
    then show ?thesis using "2.prems" by (auto simp: Let_def split: if_splits)
  next
    case False
    then have c: "\<not> list_all has_constant_type ts" and k: "\<not> list_all (isKeywordTypeRef env) ?nn"
      by auto
    show ?thesis
    proof (cases "\<exists>t. ?nn = [t]")
      case True
      then obtain t where t: "?nn = [t]" by blast
      have "queueClassLikeType env t jsonrpcMethod r s = (e, s')"
        using "2.prems" c k t by (simp add: Let_def)
      with "2.IH"(2) c k t show ?thesis by blast
    next
      case notSingle: False
      show ?thesis
      proof (cases "exceptionIndex (formatter (emitter env)) jsonrpcMethod")
        case None
        then show ?thesis using "2.prems" c k notSingle
          by (auto simp: Let_def split: list.splits)
      next
        case (Some index)
        let ?s1 = "reporter_warn (symbol jsonrpcMethod)
                     (ResolvingUnsupportedUnion index jsonrpcMethod) s"
        have g: "generatedSymbols ?s1 = generatedSymbols s"
          by (simp add: reporter_warn_def reporter_report_def)
        show ?thesis
        proof (cases "index < length ?nn")
          case True
          have q: "queueClassLikeType env (?nn ! index) jsonrpcMethod r ?s1 = (e, s')"
            using "2.prems" c k notSingle Some True
            by (auto simp: Let_def split: list.splits)
          have ne: "?nn \<noteq> []" using True by auto
          obtain x xs where nn: "?nn = x # xs" using ne by (cases ?nn) auto
          have xs: "xs \<noteq> []" using notSingle nn by auto
          then obtain y ys where "xs = y # ys" by (cases xs) auto
          then have nn2: "?nn = x # y # ys" using nn by simp
          have "generatedSymbols s' = generatedSymbols ?s1"
            using "2.IH"(3) c k nn2 Some True q by blast
          then show ?thesis using g by simp
        next
          case False
          then show ?thesis using "2.prems" c k notSingle Some g
            by (auto simp: Let_def split: list.splits)
        qed
      qed
    qed
  qed
qed (auto split: option.splits if_splits dest: queueClassLikeInfo_generated)

lemma add_constants_generated [simp]:
  "generatedSymbols (add_constants cs s) = generatedSymbols s"
  by (simp add: add_constants_def)

lemma reporter_generated [simp]:
  "generatedSymbols (reporter_report d s) = generatedSymbols s"
  "generatedSymbols (reporter_warn symb m s) = generatedSymbols s"
  "generatedSymbols (reporter_error symb m s) = generatedSymbols s"
  by (simp_all add: reporter_report_def reporter_warn_def reporter_error_def)

lemma queueClassLikeType_generated_snd:
  "generatedSymbols (snd (queueClassLikeType env t jsonrpcMethod r s)) = generatedSymbols s"
  using queueClassLikeType_generated [of env t jsonrpcMethod r s]
  by (cases "queueClassLikeType env t jsonrpcMethod r s") auto

lemma writeDataClass_member_generated_snd:
  "generatedSymbols (snd (writeDataClass_member env z acc s)) = generatedSymbols s"
  by (simp add: writeDataClass_member_def Let_def split_beta queueClassLikeType_generated_snd
      split: option.split signature.split)

lemma writeDataClass_member_generated:
  assumes "writeDataClass_member env z acc s = (r, s')"
  shows "generatedSymbols s' = generatedSymbols s"
  using writeDataClass_member_generated_snd [of env z acc s] assms by simp

lemma writeDataClass_members_generated:
  "writeDataClass_members env zs acc s = (r, s') \<Longrightarrow> generatedSymbols s' = generatedSymbols s"
proof (induction zs arbitrary: acc s)
  case Nil
  then show ?case by simp
next
  case (Cons z zs)
  obtain r1 s1 where step: "writeDataClass_member env z acc s = (r1, s1)"
    by (cases "writeDataClass_member env z acc s") auto
  have g: "generatedSymbols s1 = generatedSymbols s"
    using writeDataClass_member_generated [OF step] .
  show ?case
  proof (cases r1)
    case (Inl e)
    then show ?thesis using Cons.prems step g by simp
  next
    case (Inr acc1)
    then have "writeDataClass_members env zs acc1 s1 = (r, s')"
      using Cons.prems step by simp
    from Cons.IH [OF this] g show ?thesis by simp
  qed
qed

lemma writeDataClassUnsafe_frame:
  assumes "writeDataClassUnsafe env p n sinfo params s = (e, p', s')"
  shows "generatedSymbols s' = generatedSymbols s \<and> typesWritten p' = typesWritten p"
proof (cases "infoProperties env sinfo")
  case None
  then show ?thesis using assms
    by (auto simp: writeDataClassUnsafe_def Let_def split: if_splits)
next
  case (Some memberSymbols)
  let ?s0 = "if kind sinfo = Class
             then reporter_warn (symbol sinfo) ClassesShouldNotBeExposed s else s"
  obtain r s1 where l: "writeDataClass_members env memberSymbols ({}, [], []) ?s0 = (r, s1)"
    by (cases "writeDataClass_members env memberSymbols ({}, [], []) ?s0") auto
  have g: "generatedSymbols s1 = generatedSymbols s"
    using writeDataClass_members_generated [OF l] by simp
  show ?thesis
  proof (cases r)
    case (Inl err)
    then show ?thesis using assms Some l g
      by (auto simp: writeDataClassUnsafe_def Let_def split: if_splits)
  next
    case (Inr acc)
    then show ?thesis using assms Some l g
      by (cases acc) (auto simp: writeDataClassUnsafe_def Let_def typesWritten_append
          split: if_splits)
  qed
qed

lemma writeDataClass_frame:
  assumes "writeDataClass env p n sinfo params s = (p', s', d)"
  shows "generatedSymbols s' = generatedSymbols s \<and> typesWritten p' = typesWritten p"
proof -
  obtain e p1 s1 where u: "writeDataClassUnsafe env p n sinfo params s = (e, p1, s1)"
    by (cases "writeDataClassUnsafe env p n sinfo params s") auto
  have "p' = p1" and "s' = s1"
    using assms u by (cases e; simp add: writeDataClass_def)+
  then show ?thesis using writeDataClassUnsafe_frame [OF u] by simp
qed

lemma sealed_dedup_generated:
  "sealed_dedup symb ms H kept0 s = (kept, s') \<Longrightarrow> generatedSymbols s' = generatedSymbols s"
  by (induction ms arbitrary: H kept0 s) (auto split: if_splits)

lemma sealed_inner_frame:
  "sealed_inner env n un ms p s deferred = (e, p', s', deferred') \<Longrightarrow>
   generatedSymbols s' = generatedSymbols s \<and> typesWritten p' = typesWritten p"
proof (induction ms arbitrary: p s deferred)
  case Nil
  then show ?case by simp
next
  case (Cons m ms)
  let ?tn = "discriminatedUnionTypeName (formatter (emitter env)) un m"
  show ?case
  proof (cases "sealed_member_info env ?tn m")
    case (Inl err)
    then show ?thesis using Cons.prems by (simp add: Let_def)
  next
    case (Inr sinfo)
    obtain p1 s1 d where w: "writeDataClass env p ?tn sinfo
        \<lparr>innerClass = Some True, parentClass = Some n\<rparr> s = (p1, s1, d)"
      by (cases "writeDataClass env p ?tn sinfo \<lparr>innerClass = Some True, parentClass = Some n\<rparr> s")
        auto
    have "sealed_inner env n un ms p1 s1 (deferred @ d) = (e, p', s', deferred')"
      using Cons.prems Inr w by (simp add: Let_def)
    from Cons.IH [OF this] writeDataClass_frame [OF w] show ?thesis by simp
  qed
qed

lemma writeSealedClass_frame:
  "writeSealedClass env p n sinfo du s = (e, p', s', deferred) \<Longrightarrow>
   generatedSymbols s' = generatedSymbols s \<and> typesWritten p' = typesWritten p"
proof -
  assume a: "writeSealedClass env p n sinfo du s = (e, p', s', deferred)"
  obtain kept s1 where d: "sealed_dedup (symbol sinfo) (members du) {} [] s = (kept, s1)"
    by (cases "sealed_dedup (symbol sinfo) (members du) {} [] s") auto
  obtain e2 p2 s2 d2 where i: "sealed_inner env n (du\<lparr>members := kept\<rparr>) kept
      (p @ [StartSealedClass n sinfo (du\<lparr>members := kept\<rparr>)]) s1 [] = (e2, p2, s2, d2)"
    by (metis prod_cases4)
  have "s' = s2" and "typesWritten p' = typesWritten p2"
    using a d i by (auto simp: writeSealedClass_def Let_def typesWritten_append
        split: option.splits if_splits)
  then show ?thesis
    using sealed_inner_frame [OF i] sealed_dedup_generated [OF d]
    by (simp add: typesWritten_append)
qed

lemma foldl_report_generated [simp]:
  "generatedSymbols (foldl (\<lambda>st d. reporter_report d st) s ds) = generatedSymbols s"
  by (induction ds arbitrary: s) auto

lemma writtenSymbols_writeFile [simp]:
  "writtenSymbols (writeFile path p io) = writtenSymbols io @ typesWritten p"
  by (simp add: writtenSymbols_def writeFile_def)

lemma writtenSymbols_reject [simp]:
  "writtenSymbols (reject r io) = writtenSymbols io"
  by (cases r) (simp_all add: writtenSymbols_def reject_def)

lemma writeType_frame:
  assumes "writeType env sinfo s io = (s', io')"
  shows "generatedSymbols s' = generatedSymbols s
     \<and> (writtenSymbols io' = writtenSymbols io
        \<or> writtenSymbols io' = writtenSymbols io @ [symbol sinfo])"
proof -
  let ?n = "typeName (formatter (emitter env)) sinfo"
  obtain al0 s1 where al: "aliasType env sinfo s = (al0, s1)"
    by (cases "aliasType env sinfo s") auto
  have g1: "generatedSymbols s1 = generatedSymbols s"
    using al by (auto simp: aliasType_def Let_def split: if_splits)
  show ?thesis
  proof (cases "isIgnoredInfo (formatter (emitter env)) sinfo")
    case True
    then show ?thesis using assms al g1 by (simp add: writeType_def Let_def)
  next
    case False
    show ?thesis
    proof (cases "truthy al0")
      case True
      then show ?thesis using assms al g1 False
        by (auto simp: writeType_def Let_def typesWritten_append)
    next
      case notAlias: False
      show ?thesis
      proof (cases "map_of (discriminatedUnions s1) (symbol sinfo)")
        case None
        obtain p1 s2 d where w: "writeDataClass env [StartType ?n sinfo] ?n sinfo
            \<lparr>innerClass = None, parentClass = None\<rparr> s1 = (p1, s2, d)"
          by (cases "writeDataClass env [StartType ?n sinfo] ?n sinfo
            \<lparr>innerClass = None, parentClass = None\<rparr> s1") auto
        from writeDataClass_frame [OF w] show ?thesis
          using assms al g1 False notAlias None w
          by (auto simp: writeType_def Let_def typesWritten_append)
      next
        case (Some du)
        obtain e p1 s2 d where w: "writeSealedClass env [StartType ?n sinfo] ?n sinfo du s1
            = (e, p1, s2, d)"
          by (metis prod_cases4)
        from writeSealedClass_frame [OF w] show ?thesis
          using assms al g1 False notAlias Some w
          by (auto simp: writeType_def Let_def typesWritten_append)
      qed
    qed
  qed
qed

lemma drain_invariant:
  "drain env n s io = (finished, s', io') \<Longrightarrow>
   distinct (writtenSymbols io) \<Longrightarrow> set (writtenSymbols io) \<subseteq> generatedSymbols s \<Longrightarrow>
   distinct (writtenSymbols io') \<and> set (writtenSymbols io') \<subseteq> generatedSymbols s'"
proof (induction n arbitrary: s io)
  case 0
  then show ?case by simp
next
  case (Suc n)
  show ?case
  proof (cases "queue_pop s")
    case None
    then show ?thesis using Suc.prems by simp
  next
    case (Some a)
    obtain sinfo s1 where a: "a = (sinfo, s1)" by (cases a) auto
    have g1: "generatedSymbols s1 = generatedSymbols s"
      using Some a by (auto simp: queue_pop_def split: if_splits)
    show ?thesis
    proof (cases "symbol sinfo \<in> generatedSymbols s1")
      case True
      then have "drain env n s1 io = (finished, s', io')"
        using Suc.prems(1) Some a by simp
      from Suc.IH [OF this] Suc.prems(2,3) g1 show ?thesis by simp
    next
      case False
      obtain s2 io2 where w: "writeType env sinfo s1 io = (s2, io2)"
        by (cases "writeType env sinfo s1 io") auto
      have d: "drain env n (s2\<lparr>generatedSymbols := insert (symbol sinfo) (generatedSymbols s2)\<rparr>)
          io2 = (finished, s', io')"
        using Suc.prems(1) Some a False w by simp
      have g2: "generatedSymbols s2 = generatedSymbols s1"
        and ws: "writtenSymbols io2 = writtenSymbols io
                 \<or> writtenSymbols io2 = writtenSymbols io @ [symbol sinfo]"
        using writeType_frame [OF w] by auto
      have "distinct (writtenSymbols io2)"
        using ws Suc.prems(2,3) False g1 by auto
      moreover have "set (writtenSymbols io2) \<subseteq> generatedSymbols
          (s2\<lparr>generatedSymbols := insert (symbol sinfo) (generatedSymbols s2)\<rparr>)"
        using ws Suc.prems(3) g1 g2 by auto
      ultimately show ?thesis using Suc.IH [OF d] by simp
    qed
  qed
qed

lemma requests_loop_generated:
  "generatedSymbols (snd (snd (requests_loop env rs requests s))) = generatedSymbols s"
proof (induction rs arbitrary: requests s)
  case Nil
  then show ?case by simp
next
  case (Cons request rs)
  then show ?case
    by (simp add: split_beta queueClassLikeType_generated_snd
        split: option.split signature.split tpe.split list.split)
qed

lemma notifications_loop_generated:
  "generatedSymbols (snd (snd (notifications_loop env ns notifications s))) = generatedSymbols s"
proof (induction ns arbitrary: notifications s)
  case Nil
  then show ?case by simp
next
  case (Cons notification ns)
  then show ?case
    by (simp add: split_beta queueClassLikeType_generated_snd split: option.split)
qed

lemma writeProtocolInterface_frame:
  "generatedSymbols (fst (snd (writeProtocolInterface env n rq nt s io))) = generatedSymbols s
   \<and> writtenSymbols (snd (snd (writeProtocolInterface env n rq nt s io))) = writtenSymbols io"
  using requests_loop_generated [of env _ "[]" s]
    notifications_loop_generated [of env _ "[]"]
  by (auto simp: writeProtocolInterface_def split_beta split: option.split)

lemma run_protocols_frame:
  "generatedSymbols (fst (snd (run_protocols env io))) = {}
   \<and> writtenSymbols (snd (snd (run_protocols env io))) = []"
proof -
  let ?io0 = "writeNullAlias env (resetOutputPath io)"
  let ?w = "writeProtocolInterface env ''CodyAgentServer''
             (clientRequests env) (clientNotifications env) new_codegen ?io0"
  have w0: "writtenSymbols ?io0 = []"
    by (simp add: writeNullAlias_def resetOutputPath_def writtenSymbols_def writeFile_def)
  have g0: "generatedSymbols new_codegen = {}" by (simp add: new_codegen_def)
  have a: "generatedSymbols (fst (snd ?w)) = {}" "writtenSymbols (snd (snd ?w)) = []"
    using writeProtocolInterface_frame [of env "''CodyAgentServer''" "clientRequests env"
        "clientNotifications env" new_codegen ?io0] w0 g0 by auto
  show ?thesis
    using a writeProtocolInterface_frame [of env "''CodyAgentClient''" "serverRequests env"
        "serverNotifications env" "fst (snd ?w)" "snd (snd ?w)"]
    by (auto simp: run_protocols_def split_beta split: option.split)
qed

lemma shared_files_frame:
  "writtenSymbols (snd (writeSerializationAdapters env s io)) = writtenSymbols io"
  "writtenSymbols (writeStringLiteralConstants env s io) = writtenSymbols io"
  by (auto simp: writeSerializationAdapters_def writeStringLiteralConstants_def
      split: sum.split)

text \<open>
  Claim C1. The types written to files are told by the symbols of the \<^verbatim>\<open>startType\<close>
  requests in the files. After any number of turns of the loop of \<^verbatim>\<open>run\<close>, begun on a
  fresh engine after the two protocol interfaces, no symbol has been written twice
  (each write of a type is the write of a different symbol), and every written symbol is
  in \<^verbatim>\<open>generatedSymbols\<close>; the same holds when \<^verbatim>\<open>run\<close> has returned, or was rejected. A
  symbol information popped from the queue whose symbol is already in
  \<^verbatim>\<open>generatedSymbols\<close> is dropped: \<^verbatim>\<open>writeType\<close> is not called, and the turn changes
  nothing but the queue.
\<close>

theorem each_symbol_is_written_at_most_once:
  "(run_protocols env io = (None, s2, io2) \<longrightarrow> drain env n s2 io2 = (finished, s3, io3) \<longrightarrow>
      distinct (writtenSymbols io3) \<and> set (writtenSymbols io3) \<subseteq> generatedSymbols s3)
   \<and> (run env n io = Some (r, s, io') \<longrightarrow> distinct (writtenSymbols io'))
   \<and> (queue_pop s0 = Some (sinfo, s1) \<longrightarrow> symbol sinfo \<in> generatedSymbols s1 \<longrightarrow>
        drain env (Suc k) s0 io0 = drain env k s1 io0)"
proof -
  have loop: "distinct (writtenSymbols io3) \<and> set (writtenSymbols io3) \<subseteq> generatedSymbols s3"
    if p: "run_protocols env io = (None, s2, io2)"
      and d: "drain env n s2 io2 = (finished, s3, io3)"
  proof -
    have "generatedSymbols s2 = {}" "writtenSymbols io2 = []"
      using run_protocols_frame [of env io] p by auto
    then show ?thesis using drain_invariant [OF d] by simp
  qed
  have whole: "distinct (writtenSymbols io')" if r: "run env n io = Some (r, s, io')"
  proof -
    obtain e s2 io2 where p: "run_protocols env io = (e, s2, io2)"
      by (cases "run_protocols env io") auto
    have f: "generatedSymbols s2 = {}" "writtenSymbols io2 = []"
      using run_protocols_frame [of env io] p by auto
    show ?thesis
    proof (cases e)
      case (Some err)
      then show ?thesis using r p f by (simp add: run_def)
    next
      case None
      obtain finished s3 io3 where d: "drain env n s2 io2 = (finished, s3, io3)"
        by (cases "drain env n s2 io2") auto
      have i: "distinct (writtenSymbols io3)"
        using drain_invariant [OF d] f by simp
      have "writtenSymbols io' = writtenSymbols io3"
        using r p None d shared_files_frame(1) [of env s3 io3]
          shared_files_frame(2) [of env s3 "snd (writeSerializationAdapters env s3 io3)"]
        by (cases finished; cases "writeSerializationAdapters env s3 io3")
          (auto simp: run_def split: option.splits)
      then show ?thesis using i by simp
    qed
  qed
  have skip: "drain env (Suc k) s0 io0 = drain env k s1 io0"
    if "queue_pop s0 = Some (sinfo, s1)" and "symbol sinfo \<in> generatedSymbols s1"
    using that by simp
  show ?thesis using loop whole skip by blast
qed

text \<open>
  The example protocol queues \<^verbatim>\<open>Foo\<close> twice (for the request and for the notification) and
  \<^verbatim>\<open>PingResult\<close> once; three turns of the loop empty the queue, and each of the two types is
  written once.
\<close>

lemmas run_defs =
  run_def run_protocols_def writeProtocolInterface_def writeNullAlias_def resetOutputPath_def
  writeFile_def writeType_def aliasType_def writeSealedClass_def writeDataClass_def
  sealed_member_info_def discriminatedUnion_def unionTypes_def queue_pop_def
  writeSerializationAdapters_def writeStringLiteralConstants_def writtenSymbols_def reject_def

theorem each_symbol_is_written_at_most_once_witness:
  "(case run example_env (Suc (Suc (Suc 0))) example_host of
      None \<Rightarrow> False
    | Some (r, s, io') \<Rightarrow>
        r = None
        \<and> map fst (files io')
          = [''out/Null.kt'', ''out/CodyAgentServer.kt'', ''out/CodyAgentClient.kt'',
             ''out/Foo.kt'', ''out/PingResult.kt'', ''out/ProtocolTypeAdapters.kt'']
        \<and> writtenSymbols io' = [''Foo#'', ''PingResult#'']
        \<and> distinct (writtenSymbols io'))"
proof -
  have ev: "(case run example_env (Suc (Suc (Suc 0))) example_host of
      None \<Rightarrow> False
    | Some (r, s, io') \<Rightarrow>
        r = None
        \<and> map fst (files io')
          = [''out/Null.kt'', ''out/CodyAgentServer.kt'', ''out/CodyAgentClient.kt'',
             ''out/Foo.kt'', ''out/PingResult.kt'', ''out/ProtocolTypeAdapters.kt'']
        \<and> writtenSymbols io' = [''Foo#'', ''PingResult#''])"
    by (simp add: run_defs example_defs engine_defs data_class_defs)
  then obtain r s io' where
    run: "run example_env (Suc (Suc (Suc 0))) example_host = Some (r, s, io')"
    by (cases "run example_env (Suc (Suc (Suc 0))) example_host") auto
  have "distinct (writtenSymbols io')"
    using each_symbol_is_written_at_most_once
      [of example_env example_host _ _ "Suc (Suc (Suc 0))" _ _ _ r s io'] run
    by blast
  then show ?thesis using ev run by simp
qed

subsection \<open>Discriminated unions\<close>

text \<open>
  Claim C4 does not hold of the code. Both members of
  \<^verbatim>\<open>Blank = { kind: '' } | { kind: 'b' }\<close> have a property \<^verbatim>\<open>kind\<close> of a string literal type,
  with different literals, and no other property; but the test \<^verbatim>\<open>!stringLiteral\<close> (line
  559), there to pass over the properties that are not of a string literal type, is
  true of the empty literal as well, so \<^verbatim>\<open>kind\<close> is counted once for two members and
  \<^verbatim>\<open>discriminatedUnion\<close> returns \<^verbatim>\<open>undefined\<close>.
\<close>

theorem empty_literal_is_not_counted:
  "info (symtab example_env) ''Blank#''
     = Some (alias_info ''Blank#'' ''Blank''
         (UnionType [StructuralType [''E1#kind.''], StructuralType [''E2#kind.'']]))
   \<and> unionTypes example_env
         (UnionType [StructuralType [''E1#kind.''], StructuralType [''E2#kind.'']])
       = Inr [StructuralType [''E1#kind.''], StructuralType [''E2#kind.'']]
   \<and> properties example_env (StructuralType [''E1#kind.'']) = Some [''E1#kind.'']
   \<and> properties example_env (StructuralType [''E2#kind.'']) = Some [''E2#kind.'']
   \<and> info (symtab example_env) ''E1#kind.''
       = Some (snd (property_entry ''E1#kind.'' ''kind'' (ConstantType [])))
   \<and> info (symtab example_env) ''E2#kind.''
       = Some (snd (property_entry ''E2#kind.'' ''kind'' (ConstantType ''b'')))
   \<and> stringLiteralType example_env (ConstantType []) = Some []
   \<and> stringLiteralType example_env (ConstantType ''b'') = Some ''b''
   \<and> discriminatedUnion example_env
         (alias_info ''Blank#'' ''Blank''
            (UnionType [StructuralType [''E1#kind.''], StructuralType [''E2#kind.'']]))
       = Inr None"
  by (simp add: example_defs engine_defs discriminatedUnion_def unionTypes_def)

lemma tallied_add:
  assumes "tallied (c, m) L"
  shows "tallied
           (AList.update n ((case map_of c n of None \<Rightarrow> 0 | Some k \<Rightarrow> k) + 1) c,
            AList.update n ((case map_of m n of None \<Rightarrow> [] | Some l \<Rightarrow> l) @ [x]) m)
           (L @ [(n, x)])"
  using assms
  by (auto simp: tallied_def distinct_update update_conv')

lemma du_properties_loop_tallied:
  "property_literals env ps = Inr lits \<Longrightarrow> tallied tally L \<Longrightarrow>
   \<exists>tally'. du_properties_loop env u ps tally = Inr tally'
            \<and> tallied tally' (L @ member_pairs u lits)"
proof (induction ps arbitrary: tally L lits)
  case Nil
  then show ?case by (simp add: member_pairs_def)
next
  case (Cons propertySymbol rest)
  from Cons.prems(1) obtain property t lits' where
    i: "info (symtab env) propertySymbol = Some property"
    and sg: "signature property = Some (ValueSignature t)"
    and r: "property_literals env rest = Inr lits'"
    by (auto split: option.splits signature.splits sum.splits)
  show ?case
  proof (cases "stringLiteralType env t = None \<or> stringLiteralType env t = Some []")
    case True
    then have "lits = lits'" using Cons.prems(1) i sg r by auto
    moreover have "du_properties_loop env u (propertySymbol # rest) tally
        = du_properties_loop env u rest tally"
      using True i sg by auto
    ultimately show ?thesis using Cons.IH [OF r Cons.prems(2)] by simp
  next
    case False
    then obtain v where v: "stringLiteralType env t = Some v" "v \<noteq> []" by auto
    have lits: "lits = (display_name property, v) # lits'"
      using Cons.prems(1) i sg r v by simp
    let ?x = "\<lparr>member_value = v, member_type = u\<rparr>"
    let ?n = "display_name property"
    let ?tally1 = "(AList.update ?n ((case map_of (fst tally) ?n of None \<Rightarrow> 0 | Some k \<Rightarrow> k) + 1)
                      (fst tally),
                    AList.update ?n ((case map_of (snd tally) ?n of None \<Rightarrow> [] | Some l \<Rightarrow> l) @ [?x])
                      (snd tally))"
    have step: "du_properties_loop env u (propertySymbol # rest) tally
        = du_properties_loop env u rest ?tally1"
      using i sg v by (simp add: Let_def)
    have "tallied ?tally1 (L @ [(?n, ?x)])"
      using tallied_add [of "fst tally" "snd tally" L ?n ?x] Cons.prems(2) by simp
    from Cons.IH [OF r this] show ?thesis
      using step lits by (simp add: member_pairs_def)
  qed
qed

lemma du_unionTypes_loop_tallied:
  "list_all2 (\<lambda>u lits. stringLiteralProperties env u = Inr lits) us litss \<Longrightarrow>
   tallied tally L \<Longrightarrow>
   \<exists>tally'. du_unionTypes_loop env us tally = Inr tally'
            \<and> tallied tally' (L @ concat (map2 member_pairs us litss))"
proof (induction us litss arbitrary: tally L rule: list_all2_induct)
  case Nil
  then show ?case by simp
next
  case (Cons u us lits litss)
  from Cons.hyps(1) obtain ps where ps: "properties env u = Some ps"
    and pl: "property_literals env ps = Inr lits"
    by (auto simp: stringLiteralProperties_def split: option.splits)
  from du_properties_loop_tallied [OF pl Cons.prems] obtain tally1 where
    t1: "du_properties_loop env u ps tally = Inr tally1"
    and inv1: "tallied tally1 (L @ member_pairs u lits)"
    by blast
  from Cons.IH [OF inv1] show ?case using ps t1 by simp
qed

lemma filter_member_pairs:
  "filter (\<lambda>x. fst x = d) (member_pairs u lits)
     = member_pairs u (filter (\<lambda>x. fst x = d) lits)"
  by (induction lits) (auto simp: member_pairs_def)

lemma filter_name_absent:
  "d \<notin> fst ` set lits \<Longrightarrow> filter (\<lambda>x. fst x = d) lits = []"
  by (induction lits) auto

lemma filter_name_once:
  "distinct (map fst lits) \<Longrightarrow> d \<in> fst ` set lits \<Longrightarrow>
   \<exists>v. (d, v) \<in> set lits \<and> filter (\<lambda>x. fst x = d) lits = [(d, v)]"
proof (induction lits)
  case Nil
  then show ?case by simp
next
  case (Cons a lits)
  show ?case
  proof (cases "fst a = d")
    case True
    then have "d \<notin> fst ` set lits" using Cons.prems(1) by auto
    then have "filter (\<lambda>x. fst x = d) lits = []" by (rule filter_name_absent)
    then show ?thesis using True by (cases a) auto
  next
    case False
    then show ?thesis using Cons by auto
  qed
qed

lemma filter_name_le1:
  "distinct (map fst lits) \<Longrightarrow> length (filter (\<lambda>x. fst x = d) lits) \<le> 1"
  using filter_name_once [of lits d] filter_name_absent [of d lits]
  by (cases "d \<in> fst ` set lits") auto

lemma discriminator_members:
  "list_all2 (\<lambda>u lits. stringLiteralProperties env u = Inr lits
                \<and> distinct (map fst lits) \<and> k \<in> fst ` set lits) us litss \<Longrightarrow>
   map member_type (map snd (filter (\<lambda>x. fst x = k) (concat (map2 member_pairs us litss)))) = us
   \<and> (\<forall>m \<in> set (map snd (filter (\<lambda>x. fst x = k) (concat (map2 member_pairs us litss)))).
        \<exists>lits. stringLiteralProperties env (member_type m) = Inr lits
               \<and> (k, member_value m) \<in> set lits)"
proof (induction us litss rule: list_all2_induct)
  case Nil
  then show ?case by simp
next
  case (Cons u us lits litss)
  from Cons.hyps(1) obtain v where v: "(k, v) \<in> set lits"
    "filter (\<lambda>x. fst x = k) lits = [(k, v)]"
    using filter_name_once [of lits k] by blast
  have "filter (\<lambda>x. fst x = k) (member_pairs u lits)
          = [(k, \<lparr>member_value = v, member_type = u\<rparr>)]"
    using v(2) by (simp add: filter_member_pairs) (simp add: member_pairs_def)
  then show ?case using Cons.IH Cons.hyps(1) v(1) by auto
qed

lemma other_name_count_le:
  "list_all2 (\<lambda>u lits. stringLiteralProperties env u = Inr lits
                \<and> distinct (map fst lits) \<and> k \<in> fst ` set lits) us litss \<Longrightarrow>
   length (filter (\<lambda>x. fst x = d) (concat (map2 member_pairs us litss))) \<le> length us"
proof (induction us litss rule: list_all2_induct)
  case Nil
  then show ?case by simp
next
  case (Cons u us lits litss)
  have "length (filter (\<lambda>x. fst x = d) (member_pairs u lits)) \<le> 1"
    using filter_name_le1 [of lits d] Cons.hyps(1)
    by (simp add: filter_member_pairs) (simp add: member_pairs_def)
  then show ?case using Cons.IH by simp
qed

lemma other_name_count_less:
  "list_all2 (\<lambda>u lits. stringLiteralProperties env u = Inr lits
                \<and> distinct (map fst lits) \<and> k \<in> fst ` set lits) us litss \<Longrightarrow>
   \<exists>u \<in> set us. \<forall>lits. stringLiteralProperties env u = Inr lits \<longrightarrow> d \<notin> fst ` set lits \<Longrightarrow>
   length (filter (\<lambda>x. fst x = d) (concat (map2 member_pairs us litss))) < length us"
proof (induction us litss rule: list_all2_induct)
  case Nil
  then show ?case by simp
next
  case (Cons u us lits litss)
  have le1: "length (filter (\<lambda>x. fst x = d) (member_pairs u lits)) \<le> 1"
    using filter_name_le1 [of lits d] Cons.hyps(1)
    by (simp add: filter_member_pairs) (simp add: member_pairs_def)
  show ?case
  proof (cases "\<forall>lits. stringLiteralProperties env u = Inr lits \<longrightarrow> d \<notin> fst ` set lits")
    case True
    then have "d \<notin> fst ` set lits" using Cons.hyps(1) by blast
    then have "filter (\<lambda>x. fst x = d) (member_pairs u lits) = []"
      by (simp add: filter_member_pairs filter_name_absent) (simp add: member_pairs_def)
    then show ?thesis
      using other_name_count_le [OF Cons.hyps(2), of d] by simp
  next
    case False
    then have "\<exists>u \<in> set us. \<forall>lits. stringLiteralProperties env u = Inr lits
        \<longrightarrow> d \<notin> fst ` set lits"
      using Cons.prems by auto
    from Cons.IH [OF this] le1 show ?thesis by simp
  qed
qed

lemma unionTypes_members_flat:
  "\<forall>t \<in> set ts. \<forall>symb args. t \<noteq> TypeRef symb args \<Longrightarrow>
   unionTypes_members env depth ts result = Inr (result @ ts)"
proof (induction ts arbitrary: result)
  case Nil
  then show ?case by simp
next
  case (Cons t ts)
  then show ?case by (cases t) simp_all
qed

lemma unionTypes_flat:
  "0 < stackLimit env \<Longrightarrow> \<forall>t \<in> set ts. \<forall>symb args. t \<noteq> TypeRef symb args \<Longrightarrow>
   unionTypes env (UnionType ts) = Inr ts"
  by (cases "stackLimit env") (simp_all add: unionTypes_def unionTypes_members_flat)

lemma unionTypes_of_empty:
  "unionTypes env (UnionType []) = Inr uts \<Longrightarrow> uts = []"
  by (cases "stackLimit env") (auto simp: unionTypes_def)

text \<open>
  Where no literal is empty, the union is found. Take a type alias whose lower bound is
  a union, and let \<open>uts\<close> be the constituents that \<^verbatim>\<open>unionTypes\<close> finds for it (the
  members of the union, with members that are aliases of unions replaced by theirs; for
  a union without type references they are its members), at least one. Suppose the
  properties of every constituent can be looked up, no constituent has two counted
  properties of the same display name, every constituent has a property named \<open>k\<close>
  (such as \<^verbatim>\<open>kind\<close>) whose type is a string literal that is not empty, and for no other
  name do all constituents have one. Then \<^verbatim>\<open>discriminatedUnion\<close> returns a discriminated
  union for the alias's symbol, with discriminator \<open>k\<close>, whose members are the
  constituents, one for each and in their order, each with the literal of its property
  \<open>k\<close>.
\<close>

theorem discriminated_union_of_common_literal:
  assumes sg: "signature sinfo = Some (TypeSignature (UnionType ts))"
    and flat: "unionTypes env (UnionType ts) = Inr uts" and ne: "uts \<noteq> []"
    and every: "\<forall>u \<in> set uts. \<exists>lits. stringLiteralProperties env u = Inr lits
                  \<and> distinct (map fst lits) \<and> k \<in> fst ` set lits"
    and only: "\<forall>d. d \<noteq> k \<longrightarrow>
                 (\<exists>u \<in> set uts. \<forall>lits. stringLiteralProperties env u = Inr lits
                    \<longrightarrow> d \<notin> fst ` set lits)"
  shows "\<exists>du. discriminatedUnion env sinfo = Inr (Some du)
           \<and> du_symbol du = symbol sinfo
           \<and> discriminatorDisplayName du = k
           \<and> length (members du) = length uts
           \<and> map member_type (members du) = uts
           \<and> (\<forall>m \<in> set (members du).
                 \<exists>lits. stringLiteralProperties env (member_type m) = Inr lits
                        \<and> (k, member_value m) \<in> set lits)"
proof -
  let ?P = "\<lambda>u lits. stringLiteralProperties env u = Inr lits
                \<and> distinct (map fst lits) \<and> k \<in> fst ` set lits"
  have ts: "ts \<noteq> []" using flat ne unionTypes_of_empty by blast
  obtain litss where all2: "list_all2 ?P uts litss"
  proof -
    have "\<forall>u \<in> set uts. \<exists>lits. ?P u lits" using every by simp
    then have "\<exists>litss. list_all2 ?P uts litss"
      by (induction uts) (auto simp: list_all2_Cons1)
    then show ?thesis using that by blast
  qed
  let ?L = "concat (map2 member_pairs uts litss)"
  have all2': "list_all2 (\<lambda>u lits. stringLiteralProperties env u = Inr lits) uts litss"
    using all2 by (rule list_all2_mono) simp
  have "tallied ([], []) []" by (simp add: tallied_def)
  from du_unionTypes_loop_tallied [OF all2' this] obtain c m where
    loop: "du_unionTypes_loop env uts ([], []) = Inr (c, m)" and inv: "tallied (c, m) ?L"
    by auto
  let ?K = "filter (\<lambda>x. fst x = k) ?L"
  have mem: "map member_type (map snd ?K) = uts"
    and lit: "\<forall>m \<in> set (map snd ?K).
        \<exists>lits. stringLiteralProperties env (member_type m) = Inr lits
               \<and> (k, member_value m) \<in> set lits"
    using discriminator_members [OF all2] by auto
  have lenK: "length ?K = length uts"
    using mem by (metis length_map)
  then have Kne: "?K \<noteq> []" using ne by auto
  have ck: "map_of c k = Some (length uts)" and mk: "map_of m k = Some (map snd ?K)"
    using inv Kne lenK by (auto simp: tallied_def)
  have others: "cnt \<noteq> length uts" if "(d, cnt) \<in> set c" and "d \<noteq> k" for d cnt
  proof -
    have "distinct (map fst c)" using inv by (simp add: tallied_def)
    then have "map_of c d = Some cnt"
      using that(1) by simp
    then have "cnt = length (filter (\<lambda>x. fst x = d) ?L)"
      using inv by (auto simp: tallied_def split: if_splits)
    moreover have "length (filter (\<lambda>x. fst x = d) ?L) < length uts"
      using other_name_count_less [OF all2, of d] only that(2) by blast
    ultimately show ?thesis by simp
  qed
  have inc: "(k, length uts) \<in> set c" using ck by (rule map_of_SomeD)
  have found: "find (\<lambda>(candidate, count). count = length uts) c = Some (k, length uts)"
  proof (cases "find (\<lambda>(candidate, count). count = length uts) c")
    case None
    then show ?thesis using inc by (auto simp: find_None_iff)
  next
    case (Some x)
    obtain d cnt where x: "x = (d, cnt)" by (cases x) auto
    have "cnt = length uts" and "(d, cnt) \<in> set c"
      using Some x by (auto simp: find_Some_iff in_set_conv_nth)
    then have "d = k" using others by blast
    then show ?thesis using Some x \<open>cnt = length uts\<close> by simp
  qed
  show ?thesis
    using sg ts flat loop found mk mem lit lenK
    by (simp add: discriminatedUnion_def)
qed

text \<open>
  \<^verbatim>\<open>PingResult = { kind: 'ok', value: string } | { kind: 'error', message: string }\<close> is
  discriminated on \<^verbatim>\<open>kind\<close>, with one member for each of the two constituents.
\<close>

theorem discriminated_union_of_common_literal_witness:
  "discriminatedUnion example_env
     (alias_info ''PingResult#'' ''PingResult''
        (UnionType [StructuralType [''Ok#kind.'', ''Ok#value.''],
                    StructuralType [''Err#kind.'', ''Err#message.'']]))
   = Inr (Some
       \<lparr>du_symbol = ''PingResult#'', discriminatorDisplayName = ''kind'',
        members =
          [\<lparr>member_value = ''ok'',
            member_type = StructuralType [''Ok#kind.'', ''Ok#value.'']\<rparr>,
           \<lparr>member_value = ''error'',
            member_type = StructuralType [''Err#kind.'', ''Err#message.'']\<rparr>]\<rparr>)"
proof -
  let ?ts = "[StructuralType [''Ok#kind.'', ''Ok#value.''],
              StructuralType [''Err#kind.'', ''Err#message.'']]"
  have sg: "signature (alias_info ''PingResult#'' ''PingResult'' (UnionType ?ts))
              = Some (TypeSignature (UnionType ?ts))"
    by (simp add: alias_info_def)
  have flat: "unionTypes example_env (UnionType ?ts) = Inr ?ts"
    by (simp add: example_defs unionTypes_def)
  have ok: "stringLiteralProperties example_env (StructuralType [''Ok#kind.'', ''Ok#value.''])
              = Inr [(''kind'', ''ok'')]"
    and err: "stringLiteralProperties example_env
                (StructuralType [''Err#kind.'', ''Err#message.''])
              = Inr [(''kind'', ''error'')]"
    by (simp_all add: example_defs stringLiteralProperties_def)
  have every: "\<forall>u \<in> set ?ts. \<exists>lits. stringLiteralProperties example_env u = Inr lits
                  \<and> distinct (map fst lits) \<and> ''kind'' \<in> fst ` set lits"
    using ok err by simp
  have only: "\<forall>d. d \<noteq> ''kind'' \<longrightarrow>
                 (\<exists>u \<in> set ?ts. \<forall>lits. stringLiteralProperties example_env u = Inr lits
                    \<longrightarrow> d \<notin> fst ` set lits)"
    using ok err by simp
  from discriminated_union_of_common_literal [OF sg flat _ every only]
  obtain du where du: "discriminatedUnion example_env
        (alias_info ''PingResult#'' ''PingResult'' (UnionType ?ts)) = Inr (Some du)"
    and k: "discriminatorDisplayName du = ''kind''" and n: "length (members du) = 2"
    by auto
  show ?thesis
    using du k n
    by (simp add: example_defs engine_defs discriminatedUnion_def unionTypes_def)
qed

end
